theory Spec2Isabelle
  imports Complex_Main
begin

section \<open>Python helpers\<close>

text \<open>
  Strings are lists of 8-bit characters. A floating-point number is the rational it
  stands for, and an operation that rounds is the exact operation followed by
  \<open>float_round\<close> in the format of its result. The durations of the table are dyadic
  fractions that are added without rounding, and the one decimal constant of the source
  (\<open>0.2\<close>) is compared against multiples of a quarter, where rounding cannot change the
  outcome. Infinities and NaNs are not values of the model: the coordinates are pixel
  positions, far from the largest finite number, and a division by zero is an error.
\<close>

text \<open>\<open>sub in s\<close> on strings: \<open>sub\<close> occurs as a contiguous slice of \<open>s\<close>.\<close>

fun str_in :: "string \<Rightarrow> string \<Rightarrow> bool" where
  "str_in sub [] = (sub = [])"
| "str_in sub (c # cs) = (take (length sub) (c # cs) = sub \<or> str_in sub cs)"

text \<open>\<open>d.get(k, default)\<close> on a dictionary literal (no key is listed twice).\<close>

definition dict_get :: "('k \<times> 'v) list \<Rightarrow> 'k \<Rightarrow> 'v \<Rightarrow> 'v" where
  "dict_get d k dflt = (case map_of d k of None \<Rightarrow> dflt | Some v \<Rightarrow> v)"

text \<open>
  \<open>int(c)\<close> on a one-character string: the digit's value, or \<open>ValueError\<close> (here
  \<open>None\<close>). Among the 8-bit characters only the ASCII digits are accepted.
\<close>

definition py_int_char :: "char \<Rightarrow> int option" where
  "py_int_char c =
     map_of [(CHR ''0'', 0), (CHR ''1'', 1), (CHR ''2'', 2), (CHR ''3'', 3), (CHR ''4'', 4),
             (CHR ''5'', 5), (CHR ''6'', 6), (CHR ''7'', 7), (CHR ''8'', 8), (CHR ''9'', 9)] c"

text \<open>\<open>int(x)\<close> on a float: truncation toward zero.\<close>

definition py_int :: "rat \<Rightarrow> int" where
  "py_int x = (if 0 \<le> x then \<lfloor>x\<rfloor> else \<lceil>x\<rceil>)"

text \<open>\<open>s.replace(c, new)\<close> for a one-character pattern: every occurrence is replaced.\<close>

definition str_replace :: "char \<Rightarrow> string \<Rightarrow> string \<Rightarrow> string" where
  "str_replace c new s = concat (map (\<lambda>x. if x = c then new else [x]) s)"

section \<open>Binary floating point\<close>

text \<open>
  Rounding to the nearest integer, a tie to the even one: Python's \<open>round\<close>, and the
  rounding of the significand in the binary formats.
\<close>

definition round_half_even :: "rat \<Rightarrow> int" where
  "round_half_even x =
     (let f = \<lfloor>x\<rfloor>; d = x - rat_of_int f
      in if d < 1 / 2 then f else if 1 / 2 < d then f + 1 else if even f then f else f + 1)"

text \<open>
  A binary format: the number of significand bits and the range of the exponent of a
  normal number. NumPy's \<open>float32\<close> is \<open>binary32\<close>; Python's \<open>float\<close> and
  NumPy's \<open>float64\<close> are \<open>binary64\<close>.
\<close>

record float_format =
  precision :: nat
  emin :: int
  emax :: int

definition binary32 :: float_format where
  "binary32 = \<lparr>precision = 24, emin = - 126, emax = 127\<rparr>"

definition binary64 :: float_format where
  "binary64 = \<lparr>precision = 53, emin = - 1022, emax = 1023\<rparr>"

text \<open>
  The exponent of \<open>x\<close> in a format: the largest \<open>e\<close> of the format with
  \<open>2 ^ e \<le> |x|\<close>, found by going down from \<open>emax\<close>, and \<open>emin\<close> for the subnormal
  numbers and zero.
\<close>

fun exp_search :: "nat \<Rightarrow> int \<Rightarrow> rat \<Rightarrow> int" where
  "exp_search 0 e x = e"
| "exp_search (Suc n) e x = (if 2 powi e \<le> x then e else exp_search n (e - 1) x)"

definition float_exponent :: "float_format \<Rightarrow> rat \<Rightarrow> int" where
  "float_exponent fmt x = exp_search (nat (emax fmt - emin fmt)) (emax fmt) \<bar>x\<bar>"

text \<open>The distance of neighbouring numbers of the format around \<open>x\<close>.\<close>

definition float_ulp :: "float_format \<Rightarrow> rat \<Rightarrow> rat" where
  "float_ulp fmt x = 2 powi (float_exponent fmt x - (int (precision fmt) - 1))"

text \<open>Round to nearest, ties to even: the result of an operation whose exact value is \<open>x\<close>.\<close>

definition float_round :: "float_format \<Rightarrow> rat \<Rightarrow> rat" where
  "float_round fmt x = rat_of_int (round_half_even (x / float_ulp fmt x)) * float_ulp fmt x"

text \<open>The numbers of a format, for stating facts about \<open>float_round\<close>.\<close>

definition representable :: "float_format \<Rightarrow> rat \<Rightarrow> bool" where
  "representable fmt x =
     (\<exists>m j. x = rat_of_int m * 2 powi j \<and> \<bar>m\<bar> < 2 ^ precision fmt
            \<and> emin fmt - (int (precision fmt) - 1) \<le> j)"

section \<open>Tables of \<open>app.py\<close>\<close>

definition MUSICAL_SYMBOL_CLASSES :: "(int \<times> string) list" where
  "MUSICAL_SYMBOL_CLASSES =
    [(0, ''whole_note''), (1, ''half_note''), (2, ''quarter_note''), (3, ''eighth_note''),
     (4, ''sixteenth_note''), (5, ''thirty_second_note''), (6, ''sixty_fourth_note''),
     (7, ''whole_rest''), (8, ''half_rest''), (9, ''quarter_rest''), (10, ''eighth_rest''),
     (11, ''sixteenth_rest''), (12, ''thirty_second_rest''), (13, ''sixty_fourth_rest''),
     (14, ''treble_clef''), (15, ''bass_clef''), (16, ''alto_clef''), (17, ''tenor_clef''),
     (18, ''sharp''), (19, ''flat''), (20, ''natural''), (21, ''double_sharp''),
     (22, ''double_flat''),
     (23, ''time_signature_2_4''), (24, ''time_signature_3_4''), (25, ''time_signature_4_4''),
     (26, ''time_signature_6_8''), (27, ''time_signature_9_8''), (28, ''time_signature_12_8''),
     (29, ''common_time''), (30, ''cut_time''), (31, ''bar_line''), (32, ''double_bar_line''),
     (33, ''repeat_start''), (34, ''repeat_end''), (35, ''tie''), (36, ''slur''),
     (37, ''beam''), (38, ''dot''), (39, ''staccato''), (40, ''accent''),
     (41, ''fermata''), (42, ''trill''), (43, ''mordent''), (44, ''turn''),
     (45, ''grace_note''), (46, ''chord'')]"

definition SYMBOL_DURATIONS :: "(string \<times> rat) list" where
  "SYMBOL_DURATIONS =
    [(''whole_note'', 4), (''half_note'', 2), (''quarter_note'', 1),
     (''eighth_note'', 1 / 2), (''sixteenth_note'', 1 / 4), (''thirty_second_note'', 1 / 8),
     (''sixty_fourth_note'', 1 / 16), (''whole_rest'', 4), (''half_rest'', 2),
     (''quarter_rest'', 1), (''eighth_rest'', 1 / 2), (''sixteenth_rest'', 1 / 4),
     (''thirty_second_rest'', 1 / 8), (''sixty_fourth_rest'', 1 / 16)]"

section \<open>\<open>utils/midi_generation.py\<close>: pitch strings to MIDI numbers\<close>

definition note_map :: "(string \<times> int) list" where
  "note_map =
    [(''C'', 0), (''C#'', 1), (''Db'', 1), (''D'', 2), (''D#'', 3), (''Eb'', 3),
     (''E'', 4), (''F'', 5), (''F#'', 6), (''Gb'', 6), (''G'', 7), (''G#'', 8),
     (''Ab'', 8), (''A'', 9), (''A#'', 10), (''Bb'', 10), (''B'', 11)]"

text \<open>
  \<open>pitch_to_midi_number\<close>. The whole body sits in a \<open>try\<close> whose bare \<open>except\<close>
  returns 60, so the \<open>ValueError\<close> of \<open>int\<close> becomes the value 60.
\<close>

definition pitch_to_midi_number :: "string \<Rightarrow> int" where
  "pitch_to_midi_number pitch =
     (if length pitch = 2 then
        (case py_int_char (pitch ! 1) of
           None \<Rightarrow> 60
         | Some octave \<Rightarrow>
             max 0 (min 127 ((octave + 1) * 12 + dict_get note_map [pitch ! 0] 0)))
      else if length pitch = 3 then
        (case py_int_char (pitch ! 2) of
           None \<Rightarrow> 60
         | Some octave \<Rightarrow>
             max 0 (min 127 ((octave + 1) * 12 + dict_get note_map (take 2 pitch) 0)))
      else 60)"

text \<open>
  The mapping in the words of the specification: a letter \<open>C\<close> to \<open>B\<close> gives the
  chromatic offset 0 to 11, a sharp adds one, a flat subtracts one.
\<close>

definition letter_semitone :: "char \<Rightarrow> int" where
  "letter_semitone l =
     dict_get [(CHR ''C'', 0), (CHR ''D'', 2), (CHR ''E'', 4), (CHR ''F'', 5),
               (CHR ''G'', 7), (CHR ''A'', 9), (CHR ''B'', 11)] l 0"

definition semitoneOffset :: "char \<Rightarrow> string \<Rightarrow> int" where
  "semitoneOffset l a =
     letter_semitone l + (if a = ''#'' then 1 else if a = ''b'' then - 1 else 0)"

definition spec_midi_number :: "char \<Rightarrow> string \<Rightarrow> int \<Rightarrow> int" where
  "spec_midi_number l a octave = max 0 (min 127 ((octave + 1) * 12 + semitoneOffset l a))"

text \<open>The note names the source's table does not list.\<close>

definition unlisted_names :: "(char \<times> string) set" where
  "unlisted_names = {(CHR ''E'', ''#''), (CHR ''B'', ''#''), (CHR ''C'', ''b''), (CHR ''F'', ''b'')}"

section \<open>Data model\<close>

text \<open>
  Whatever the pipeline can raise. Every one of these is caught by the \<open>try\<close> of
  \<open>analyze_sheet_music\<close> and turned into an error result.
\<close>

datatype error =
    ImageLoadError      \<comment> \<open>\<open>cv2.imread\<close> returned \<open>None\<close>\<close>
  | CvError             \<comment> \<open>an OpenCV call of the staff detector raised\<close>
  | DetectorError       \<comment> \<open>\<open>model.predict\<close> raised\<close>
  | DegenerateStaff     \<comment> \<open>line spacing zero: the division raises, or gives an
                            infinity or a NaN on which \<open>int\<close> raises\<close>
  | MidiWriteError      \<comment> \<open>writing the MIDI file raised\<close>

text \<open>
  One row of the detector's output: \<open>xyxy\<close>, \<open>conf\<close>, \<open>cls\<close>. The coordinates
  are \<open>float32\<close> numbers.
\<close>

record detection =
  det_x1 :: rat
  det_y1 :: rat
  det_x2 :: rat
  det_y2 :: rat
  det_conf :: rat
  det_cls :: int

text \<open>
  The symbol dictionary. \<open>cls\<close> is the key \<open>'class'\<close>; \<open>box\<close> is \<open>[x, y, width, height]\<close>;
  \<open>accidental\<close> is \<open>None\<close> while the dictionary has no such key.
\<close>

record symbol =
  cls :: string
  confidence :: rat
  box :: "int \<times> int \<times> int \<times> int"
  pitch :: string
  duration :: rat
  accidental :: "string option"

definition box_x :: "symbol \<Rightarrow> int" where
  "box_x s = (case box s of (x, y, w, h) \<Rightarrow> x)"

definition box_y :: "symbol \<Rightarrow> int" where
  "box_y s = (case box s of (x, y, w, h) \<Rightarrow> y)"

definition box_h :: "symbol \<Rightarrow> int" where
  "box_h s = (case box s of (x, y, w, h) \<Rightarrow> h)"

text \<open>One \<open>addNote\<close> call on track 0, channel 0: note-on at \<open>note_time\<close>, note-off
  \<open>note_duration\<close> beats later.\<close>

record midi_note =
  note_pitch :: int
  note_time :: rat
  note_duration :: rat
  note_volume :: int

definition note_off_time :: "midi_note \<Rightarrow> rat" where
  "note_off_time n = note_time n + note_duration n"

record midi_file =
  track_name :: string
  tempo :: int
  midi_notes :: "midi_note list"

section \<open>\<open>utils/image_processing.py\<close>\<close>

subsection \<open>Staff systems\<close>

text \<open>A segment of \<open>HoughLinesP\<close>: \<open>(x1, y1, x2, y2)\<close>.\<close>

type_synonym segment = "int \<times> int \<times> int \<times> int"

definition validate_staff_spacing :: "int list \<Rightarrow> bool" where
  "validate_staff_spacing staff_lines =
     (if length staff_lines \<noteq> 5 then False
      else
        let spacings = map (\<lambda>i. staff_lines ! (i + 1) - staff_lines ! i) [0..<4];
            avg_spacing = rat_of_int (sum_list spacings) / rat_of_nat (length spacings)
        in list_all
             (\<lambda>spacing. \<not> \<bar>rat_of_int spacing - avg_spacing\<bar> > avg_spacing * (1 / 5))
             spacings)"

text \<open>The \<open>while\<close> loop of \<open>group_staff_lines\<close>, with its index and its result list.\<close>

function group_loop :: "int list \<Rightarrow> nat \<Rightarrow> int list list \<Rightarrow> int list list" where
  "group_loop horizontal_lines i staff_systems =
     (if int i < int (length horizontal_lines) - 4 then
        (let staff_group = take 5 (drop i horizontal_lines) in
         if validate_staff_spacing staff_group
         then group_loop horizontal_lines (i + 5) (staff_systems @ [staff_group])
         else group_loop horizontal_lines (i + 1) staff_systems)
      else staff_systems)"
  by pat_completeness auto
termination
  by (relation "measure (\<lambda>(hl, i, acc). length hl - i)") auto

definition horizontal_midpoints :: "segment list \<Rightarrow> int list" where
  "horizontal_midpoints lines =
     map (\<lambda>(x1, y1, x2, y2). (y1 + y2) div 2)
       (filter (\<lambda>(x1, y1, x2, y2). \<bar>y2 - y1\<bar> < 10) lines)"

definition group_staff_lines :: "segment list option \<Rightarrow> int \<Rightarrow> int list list" where
  "group_staff_lines lines image_height =
     (case lines of
        None \<Rightarrow> []
      | Some ls \<Rightarrow> group_loop (sort (horizontal_midpoints ls)) 0 [])"

text \<open>
  \<open>detect_staff_lines_enhanced\<close>. The OpenCV calls up to \<open>HoughLinesP\<close> are outside the
  model: their outcome, an exception or the segments (\<open>None\<close> when there are none), is the
  argument. The \<open>except\<close> branch returns the empty list.
\<close>

definition detect_staff_lines_enhanced :: "error + segment list option \<Rightarrow> int \<Rightarrow> int list list" where
  "detect_staff_lines_enhanced hough image_height =
     (case hough of
        Inl e \<Rightarrow> []
      | Inr lines \<Rightarrow> group_staff_lines lines image_height)"

subsection \<open>Pitch from the staff position\<close>

definition staff_pitches :: "string list" where
  "staff_pitches =
     [''F5'', ''E5'', ''D5'', ''C5'', ''B4'', ''A4'', ''G4'', ''F4'', ''E4'', ''D4'', ''C4'']"

text \<open>
  \<open>calculate_pitch_from_staff_position\<close>. The difference \<open>y_pos - staff_top\<close> and the
  quotient by the line spacing are floating-point operations whose format \<open>fmt\<close> NumPy's
  promotion rules decide: \<open>binary64\<close> when the staff lines are NumPy integers, as the
  detected ones are, and for the built-in staff of Python integers either \<open>binary64\<close> or,
  from NumPy 2 on, \<open>binary32\<close>. The line spacing, an integer below \<open>2 ^ 53\<close> divided
  by 4, is exact. With a spacing of zero the division raises, or gives an infinity or a
  NaN on which \<open>int\<close> raises.
\<close>

definition calculate_pitch_from_staff_position ::
    "float_format \<Rightarrow> rat \<Rightarrow> int list \<Rightarrow> error + string" where
  "calculate_pitch_from_staff_position fmt y_pos staff_lines =
     (if staff_lines = [] then Inr ''C4''
      else
        let staff_top = Min (set staff_lines);
            staff_bottom = Max (set staff_lines);
            staff_height = staff_bottom - staff_top;
            line_spacing = rat_of_int staff_height / 4
        in if line_spacing = 0 then Inl DegenerateStaff
           else
             let relative_pos =
                   float_round fmt
                     (float_round fmt (y_pos - rat_of_int staff_top) / line_spacing);
                 pitch_index = py_int relative_pos
             in if 0 \<le> pitch_index \<and> pitch_index < int (length staff_pitches)
                then Inr (staff_pitches ! nat pitch_index)
                else Inr ''C4'')"

subsection \<open>Detections to symbols\<close>

definition class_name :: "int \<Rightarrow> string" where
  "class_name class_id = dict_get MUSICAL_SYMBOL_CLASSES class_id ''unknown''"

text \<open>
  \<open>center_y = (y1 + y2) / 2\<close> on \<open>float32\<close> numbers: the sum is rounded to
  \<open>binary32\<close>, and so is the half, which is exact unless the sum is subnormal.
\<close>

definition center_y :: "detection \<Rightarrow> rat" where
  "center_y d = float_round binary32 (float_round binary32 (det_y1 d + det_y2 d) / 2)"

text \<open>
  The body of the loop of \<open>process_detections_enhanced\<close>, for one detection. The width
  and the height are \<open>float32\<close> differences.
\<close>

definition make_symbol :: "float_format \<Rightarrow> detection \<Rightarrow> int list \<Rightarrow> error + symbol" where
  "make_symbol fmt d staff_lines =
     (let width = float_round binary32 (det_x2 d - det_x1 d);
          height = float_round binary32 (det_y2 d - det_y1 d);
          symbol_class = class_name (det_cls d);
          pitch_result =
            (if str_in ''note'' symbol_class
             then calculate_pitch_from_staff_position fmt (center_y d) staff_lines
             else Inr ''C4'')
      in case pitch_result of
           Inl e \<Rightarrow> Inl e
         | Inr p \<Rightarrow>
             Inr \<lparr>cls = symbol_class, confidence = det_conf d,
                  box = (py_int (det_x1 d), py_int (det_y1 d), py_int width, py_int height),
                  pitch = p, duration = dict_get SYMBOL_DURATIONS symbol_class 1,
                  accidental = None\<rparr>)"

fun process_detections_enhanced ::
    "float_format \<Rightarrow> detection list \<Rightarrow> int list \<Rightarrow> error + symbol list" where
  "process_detections_enhanced fmt [] staff_lines = Inr []"
| "process_detections_enhanced fmt (d # ds) staff_lines =
     (case make_symbol fmt d staff_lines of
        Inl e \<Rightarrow> Inl e
      | Inr s \<Rightarrow>
          (case process_detections_enhanced fmt ds staff_lines of
             Inl e \<Rightarrow> Inl e
           | Inr ss \<Rightarrow> Inr (s # ss)))"

section \<open>\<open>utils/midi_generation.py\<close>: the note loop\<close>

text \<open>One iteration of the loop of \<open>generate_midi_file\<close> on the cursor and the notes added.\<close>

definition midi_step :: "symbol \<Rightarrow> rat \<times> midi_note list \<Rightarrow> rat \<times> midi_note list" where
  "midi_step s st =
     (case st of (current_time, added) \<Rightarrow>
        if str_in ''note'' (cls s) then
          (current_time + duration s,
           added @ [\<lparr>note_pitch = pitch_to_midi_number (pitch s), note_time = current_time,
                      note_duration = duration s, note_volume = 100\<rparr>])
        else (current_time, added))"

definition midi_loop :: "symbol list \<Rightarrow> rat \<times> midi_note list" where
  "midi_loop symbols = fold midi_step symbols (0, [])"

text \<open>\<open>write_ok\<close> says whether opening and writing the output file succeeds.\<close>

definition generate_midi_file :: "symbol list \<Rightarrow> bool \<Rightarrow> int \<Rightarrow> error + midi_file" where
  "generate_midi_file symbols write_ok bpm_arg =
     (if write_ok
      then Inr \<lparr>track_name = ''Transcribed Music'', tempo = bpm_arg,
                midi_notes = snd (midi_loop symbols)\<rparr>
      else Inl MidiWriteError)"
section \<open>\<open>app.py\<close>\<close>

subsection \<open>The unused clef-aware pitch helper\<close>

definition treble_pitches :: "string list" where
  "treble_pitches =
     [''E5'', ''D5'', ''C5'', ''B4'', ''A4'', ''G4'', ''F4'', ''E4'', ''D4'', ''C4'', ''B3'']"

definition bass_pitches :: "string list" where
  "bass_pitches =
     [''G3'', ''F3'', ''E3'', ''D3'', ''C3'', ''B2'', ''A2'', ''G2'', ''F2'', ''E2'', ''D2'']"

definition alto_pitches :: "string list" where
  "alto_pitches =
     [''G4'', ''F4'', ''E4'', ''D4'', ''C4'', ''B3'', ''A3'', ''G3'', ''F3'', ''E3'', ''D3'']"

definition pitch_mapping :: "(string \<times> string list) list" where
  "pitch_mapping =
     [(''treble'', treble_pitches), (''bass'', bass_pitches), (''alto'', alto_pitches)]"

text \<open>
  \<open>calculate_pitch_from_position\<close>. The mean of the staff lines is a \<open>binary64\<close>
  division of integers; \<open>fmt\<close> is the format of the arithmetic on \<open>y_pos\<close>, to which
  the mean is converted first.
\<close>

definition calculate_pitch_from_position ::
    "float_format \<Rightarrow> rat \<Rightarrow> int list \<Rightarrow> string \<Rightarrow> error + string" where
  "calculate_pitch_from_position fmt y_pos staff_lines clef_type =
     (if staff_lines = [] then Inr ''C4''
      else
        let pitches = dict_get pitch_mapping clef_type treble_pitches;
            staff_center =
              float_round fmt
                (float_round binary64
                   (rat_of_int (sum_list staff_lines) / rat_of_nat (length staff_lines)));
            staff_spacing = rat_of_int (Max (set staff_lines) - Min (set staff_lines)) / 4
        in if staff_spacing = 0 then Inl DegenerateStaff
           else
             let relative_pos =
                   float_round fmt (float_round fmt (y_pos - staff_center) / staff_spacing);
                 pitch_index = py_int (float_round fmt (5 + relative_pos))
             in if 0 \<le> pitch_index \<and> pitch_index < int (length pitches)
                then Inr (pitches ! nat pitch_index)
                else Inr ''C4'')"

subsection \<open>Accidentals\<close>

definition is_accidental :: "symbol \<Rightarrow> bool" where
  "is_accidental s = (cls s \<in> set [''sharp'', ''flat'', ''natural''])"

definition is_note :: "symbol \<Rightarrow> bool" where
  "is_note s = str_in ''note'' (cls s)"

text \<open>
  The inner loop over the accidentals for one note: the state is \<open>closest_accidental\<close>
  and \<open>min_distance\<close>, where \<open>None\<close> stands for \<open>float('inf')\<close>.
\<close>

definition closest_step :: "symbol \<Rightarrow> symbol \<Rightarrow> symbol option \<times> int option \<Rightarrow> symbol option \<times> int option" where
  "closest_step note acc st =
     (case st of (closest_accidental, min_distance) \<Rightarrow>
        if box_x acc < box_x note \<and> \<bar>box_y acc - box_y note\<bar> < 20 then
          (let distance = box_x note - box_x acc in
           if (case min_distance of None \<Rightarrow> True | Some m \<Rightarrow> distance < m)
           then (Some acc, Some distance)
           else (closest_accidental, min_distance))
        else (closest_accidental, min_distance))"

definition find_closest_accidental :: "symbol list \<Rightarrow> symbol \<Rightarrow> symbol option" where
  "find_closest_accidental accidentals note = fst (fold (closest_step note) accidentals (None, None))"

text \<open>The two pitch rewrites, on the pitch string.\<close>

definition sharpen :: "string \<Rightarrow> string" where
  "sharpen p = (if CHR ''4'' \<in> set p then str_replace CHR ''4'' ''#4'' p else p @ ''#'')"

definition flatten :: "string \<Rightarrow> string" where
  "flatten p = (if CHR ''4'' \<in> set p then str_replace CHR ''4'' ''b4'' p else p @ ''b'')"

text \<open>The body of the loop over the notes: what one note dictionary becomes.\<close>

definition bind_accidental :: "symbol list \<Rightarrow> symbol \<Rightarrow> symbol" where
  "bind_accidental accidentals note =
     (case find_closest_accidental accidentals note of
        None \<Rightarrow> note
      | Some closest_accidental \<Rightarrow>
          note\<lparr>accidental := Some (cls closest_accidental),
               pitch :=
                 (if cls closest_accidental = ''sharp'' then sharpen (pitch note)
                  else if cls closest_accidental = ''flat'' then flatten (pitch note)
                  else pitch note)\<rparr>)"

text \<open>
  \<open>apply_accidentals_to_notes\<close>. The source updates the note dictionaries in place and
  then filters the input list; since every symbol of the pipeline is a dictionary of its
  own, the returned list holds the updated value at each note's position.
\<close>

definition apply_accidentals_to_notes :: "symbol list \<Rightarrow> symbol list" where
  "apply_accidentals_to_notes symbols =
     (let accidentals = filter is_accidental symbols in
      map (\<lambda>s. if is_note s then bind_accidental accidentals s else s)
        (filter (\<lambda>s. \<not> is_accidental s) symbols))"

subsection \<open>Measures\<close>

definition is_bar_line :: "symbol \<Rightarrow> bool" where
  "is_bar_line s = (cls s \<in> set [''bar_line'', ''double_bar_line''])"

text \<open>The loop over the bar lines, with \<open>measure_start\<close> and \<open>measures\<close> (here \<open>measures_acc\<close>) as its state.\<close>

fun measure_loop :: "symbol list \<Rightarrow> symbol list \<Rightarrow> int \<Rightarrow> symbol list list \<Rightarrow> symbol list list" where
  "measure_loop [] sorted_symbols measure_start measures_acc = measures_acc"
| "measure_loop (bar_line # rest) sorted_symbols measure_start measures_acc =
     (let bar_x = box_x bar_line;
          measure_symbols =
            filter (\<lambda>s. measure_start \<le> box_x s \<and> box_x s < bar_x
                        \<and> \<not> str_in ''bar_line'' (cls s)) sorted_symbols
      in measure_loop rest sorted_symbols bar_x
           (if measure_symbols \<noteq> [] then measures_acc @ [measure_symbols] else measures_acc))"

definition group_symbols_by_measure :: "symbol list \<Rightarrow> int list list \<Rightarrow> symbol list list" where
  "group_symbols_by_measure symbols staff_lines =
     (let sorted_symbols = sort_key box_x symbols;
          bar_lines = filter is_bar_line sorted_symbols
      in if bar_lines = [] then [sorted_symbols]
         else
           let measures_acc = measure_loop bar_lines sorted_symbols 0 [];
               final_symbols =
                 filter (\<lambda>s. box_x s > box_x (last bar_lines)
                             \<and> \<not> str_in ''bar_line'' (cls s)) sorted_symbols
           in if final_symbols \<noteq> [] then measures_acc @ [final_symbols] else measures_acc)"

subsection \<open>The analysis\<close>

text \<open>
  What \<open>analyze_sheet_music\<close> gets from outside: whether the image loads, the outcome of
  the OpenCV stages, the detector (\<open>None\<close> when the model file could not be loaded, else
  the outcome of \<open>predict\<close>), the format NumPy gives the arithmetic on the vertical
  position, and whether the MIDI file can be written.
\<close>

record env =
  image_loaded :: bool
  image_height :: int
  hough :: "error + segment list option"
  detector :: "(error + detection list) option"
  position_format :: float_format
  midi_write_ok :: bool

record note_summary =
  summary_pitch :: string
  summary_duration :: string
  summary_box :: "int \<times> int \<times> int \<times> int"

text \<open>The success result; \<open>midi\<close> is the file the call wrote.\<close>

record analysis =
  bpm :: int
  time_signature :: string
  key_signature :: string
  notes_out :: "note_summary list"
  measures_count :: nat
  symbols_detected :: nat
  midi :: midi_file

definition fallback_staff :: "int list list" where
  "fallback_staff = [[100, 150, 200, 250, 300]]"

definition mock_symbols :: "symbol list" where
  "mock_symbols =
     [\<lparr>cls = ''quarter_note'', confidence = 85 / 100, box = (150, 180, 20, 25),
       pitch = ''E4'', duration = 1, accidental = None\<rparr>,
      \<lparr>cls = ''half_note'', confidence = 90 / 100, box = (200, 160, 20, 25),
       pitch = ''G4'', duration = 2, accidental = None\<rparr>]"

text \<open>The staff systems the analysis goes on with.\<close>

definition analysis_staff_lines :: "env \<Rightarrow> int list list" where
  "analysis_staff_lines e =
     (let staff_lines = detect_staff_lines_enhanced (hough e) (image_height e)
      in if staff_lines = [] then fallback_staff else staff_lines)"

text \<open>The detection step: the symbols of the detector's first result, or the mock data.\<close>

definition analysis_symbols ::
    "float_format \<Rightarrow> (error + detection list) option \<Rightarrow> int list list \<Rightarrow> error + symbol list" where
  "analysis_symbols fmt det staff_lines =
     (case det of
        None \<Rightarrow> Inr mock_symbols
      | Some (Inl e) \<Rightarrow> Inl e
      | Some (Inr ds) \<Rightarrow> process_detections_enhanced fmt ds (staff_lines ! 0))"

text \<open>The response of a successful analysis, from the symbols, the measures and the file.\<close>

definition analysis_result :: "symbol list \<Rightarrow> symbol list list \<Rightarrow> midi_file \<Rightarrow> analysis" where
  "analysis_result symbols ms file =
     \<lparr>bpm = 120, time_signature = ''4/4'', key_signature = ''C major'',
      notes_out =
        map (\<lambda>s. \<lparr>summary_pitch = pitch s,
                   summary_duration = (if duration s = 1 then ''quarter'' else ''half''),
                   summary_box = box s\<rparr>)
          (filter is_note symbols),
      measures_count = length ms, symbols_detected = length symbols, midi = file\<rparr>"

definition analyze_sheet_music :: "env \<Rightarrow> error + analysis" where
  "analyze_sheet_music e =
     (if \<not> image_loaded e then Inl ImageLoadError
      else
        let staff_lines = analysis_staff_lines e in
        case analysis_symbols (position_format e) (detector e) staff_lines of
          Inl err \<Rightarrow> Inl err
        | Inr detected \<Rightarrow>
            let symbols = apply_accidentals_to_notes detected;
                ms = group_symbols_by_measure symbols staff_lines
            in case generate_midi_file symbols (midi_write_ok e) 120 of
                 Inl err \<Rightarrow> Inl err
               | Inr file \<Rightarrow> Inr (analysis_result symbols ms file))"

section \<open>The specification's wording, for comparison\<close>

text \<open>
  The pitch rule as the specification words it: the index is
  \<open>round(5 + (y - center) / spacing)\<close> with the mean of the staff lines as center, looked
  up in the ladder of the clef, with C4 for an empty staff or an index outside the ladder.
  The arithmetic is exact and \<open>round\<close> is Python's.
\<close>

definition spec_pitch :: "rat \<Rightarrow> int list \<Rightarrow> string \<Rightarrow> string" where
  "spec_pitch y staff clef =
     (if staff = [] then ''C4''
      else
        let ladder = dict_get pitch_mapping clef treble_pitches;
            center = rat_of_int (sum_list staff) / rat_of_nat (length staff);
            spacing = rat_of_int (Max (set staff) - Min (set staff)) / 4;
            index = round_half_even (5 + (y - center) / spacing)
        in if 0 \<le> index \<and> index < 11 then ladder ! nat index else ''C4'')"

text \<open>
  The staff system nearest to a vertical position: the distance to a system is the
  distance to the band between its outer lines; the first of several nearest ones wins.
\<close>

definition staff_distance :: "rat \<Rightarrow> int list \<Rightarrow> rat" where
  "staff_distance y staff =
     (let top = rat_of_int (Min (set staff)); bottom = rat_of_int (Max (set staff))
      in if y < top then top - y else if bottom < y then y - bottom else 0)"

fun nearest_system :: "rat \<Rightarrow> int list list \<Rightarrow> int list" where
  "nearest_system y [] = []"
| "nearest_system y [s] = s"
| "nearest_system y (s # t # rest) =
     (let n = nearest_system y (t # rest)
      in if staff_distance y s \<le> staff_distance y n then s else n)"

text \<open>The vertical center of a symbol's box.\<close>

definition box_center_y :: "symbol \<Rightarrow> rat" where
  "box_center_y s = rat_of_int (box_y s) + rat_of_int (box_h s) / 2"

text \<open>
  The invariant of a staff system as the specification words it: each of the four
  spacings of consecutive lines is within 20 percent of their mean.
\<close>

definition staff_spacings :: "int list \<Rightarrow> int list" where
  "staff_spacings g = [g ! 1 - g ! 0, g ! 2 - g ! 1, g ! 3 - g ! 2, g ! 4 - g ! 3]"

definition mean_spacing :: "int list \<Rightarrow> rat" where
  "mean_spacing g = rat_of_int (sum_list (staff_spacings g)) / 4"

definition spacings_within_20_percent :: "int list \<Rightarrow> bool" where
  "spacings_within_20_percent g =
     list_all (\<lambda>s. \<bar>rat_of_int s - mean_spacing g\<bar> \<le> mean_spacing g * (20 / 100))
       (staff_spacings g)"

text \<open>The class names of the rests.\<close>

definition rest_classes :: "string list" where
  "rest_classes =
     [''whole_rest'', ''half_rest'', ''quarter_rest'', ''eighth_rest'', ''sixteenth_rest'',
      ''thirty_second_rest'', ''sixty_fourth_rest'']"

text \<open>The two quantities the pitch rule of the detector path works with.\<close>

definition staff_top :: "int list \<Rightarrow> rat" where
  "staff_top staff = rat_of_int (Min (set staff))"

definition line_spacing :: "int list \<Rightarrow> rat" where
  "line_spacing staff = rat_of_int (Max (set staff) - Min (set staff)) / 4"




section \<open>Facts about rounding\<close>

lemma round_half_even_cases:
  "round_half_even x = \<lfloor>x\<rfloor> \<and> x - rat_of_int \<lfloor>x\<rfloor> \<le> 1 / 2
   \<or> round_half_even x = \<lfloor>x\<rfloor> + 1 \<and> 1 / 2 \<le> x - rat_of_int \<lfloor>x\<rfloor>"
  by (auto simp: round_half_even_def Let_def)

lemma round_half_even_nearest:
  "\<bar>x - rat_of_int (round_half_even x)\<bar> \<le> \<bar>x - rat_of_int n\<bar>"
proof -
  define F where "F = rat_of_int \<lfloor>x\<rfloor>"
  define N where "N = rat_of_int n"
  define R where "R = rat_of_int (round_half_even x)"
  have lo: "F \<le> x" and hi: "x < F + 1"
    unfolding F_def by linarith+
  have r: "R = F \<and> x - F \<le> 1 / 2 \<or> R = F + 1 \<and> 1 / 2 \<le> x - F"
    using round_half_even_cases [of x] unfolding F_def R_def by auto
  have "n \<le> \<lfloor>x\<rfloor> \<or> \<lfloor>x\<rfloor> + 1 \<le> n"
    by linarith
  then have n: "N \<le> F \<or> F + 1 \<le> N"
    unfolding F_def N_def by (metis of_int_1 of_int_add of_int_le_iff)
  from lo hi r n have "\<bar>x - R\<bar> \<le> \<bar>x - N\<bar>"
    by (elim disjE conjE; linarith)
  then show ?thesis
    unfolding R_def N_def .
qed

lemma pow2_less_iff: "(2::rat) powi a < 2 powi b \<longleftrightarrow> a < b"
proof
  assume "(2::rat) powi a < 2 powi b"
  show "a < b"
  proof (rule ccontr)
    assume "\<not> a < b"
    then have "(2::rat) powi b \<le> 2 powi a"
      by (intro power_int_increasing) simp_all
    with \<open>(2::rat) powi a < 2 powi b\<close> show False
      by simp
  qed
next
  assume "a < b"
  then show "(2::rat) powi a < 2 powi b"
    by (intro power_int_strict_increasing) simp_all
qed

lemma pow2_le_iff: "(2::rat) powi a \<le> 2 powi b \<longleftrightarrow> a \<le> b"
  using pow2_less_iff [of b a] by (auto simp: not_less [symmetric])

lemma pow2_nat: "0 \<le> a \<Longrightarrow> (2::rat) powi a = rat_of_int (2 ^ nat a)"
  by (simp add: power_int_def)

lemma exp_search_bounds:
  "e - int n \<le> exp_search n e x \<and> exp_search n e x \<le> e
   \<and> (exp_search n e x = e - int n \<or> 2 powi (exp_search n e x) \<le> x)"
proof (induction n arbitrary: e)
  case 0
  show ?case by simp
next
  case (Suc n)
  show ?case
    using Suc.IH [of "e - 1"] by auto
qed

lemma exp_search_unique:
  assumes "e0 - int n \<le> e" and "e \<le> e0" and "2 powi e \<le> x" and "x < 2 powi (e + 1)"
  shows "exp_search n e0 x = e"
  using assms
proof (induction n arbitrary: e0)
  case 0
  then show ?case by simp
next
  case (Suc n)
  show ?case
  proof (cases "2 powi e0 \<le> x")
    case True
    with Suc.prems(4) have "(2::rat) powi e0 < 2 powi (e + 1)"
      by linarith
    then have "e0 < e + 1"
      by (simp add: pow2_less_iff)
    with Suc.prems(2) True show ?thesis
      by simp
  next
    case False
    with Suc.prems(3) have "(2::rat) powi e < 2 powi e0"
      by linarith
    then have "e < e0"
      by (simp add: pow2_less_iff)
    with Suc.prems False show ?thesis
      using Suc.IH [of "e0 - 1"] by simp
  qed
qed

lemma float_exponent_low:
  assumes "emin fmt \<le> emax fmt"
  shows "emin fmt \<le> float_exponent fmt x
     \<and> (float_exponent fmt x = emin fmt \<or> 2 powi (float_exponent fmt x) \<le> \<bar>x\<bar>)"
  using assms exp_search_bounds [of "emax fmt" "nat (emax fmt - emin fmt)" "\<bar>x\<bar>"]
  by (simp add: float_exponent_def)

lemma float_exponent_eq:
  assumes "emin fmt \<le> e" and "e \<le> emax fmt"
    and "2 powi e \<le> \<bar>x\<bar>" and "\<bar>x\<bar> < 2 powi (e + 1)"
  shows "float_exponent fmt x = e"
  unfolding float_exponent_def
  using assms by (intro exp_search_unique) simp_all

lemma float_ulp_positive: "0 < float_ulp fmt x"
  by (simp add: float_ulp_def)

lemma float_round_multiple:
  "\<bar>x - float_round fmt x\<bar> \<le> \<bar>x - rat_of_int M * float_ulp fmt x\<bar>"
proof -
  let ?q = "float_ulp fmt x"
  have q: "0 < ?q"
    by (rule float_ulp_positive)
  have "\<bar>x / ?q - rat_of_int (round_half_even (x / ?q))\<bar> \<le> \<bar>x / ?q - rat_of_int M\<bar>"
    by (rule round_half_even_nearest)
  then have "\<bar>x / ?q - rat_of_int (round_half_even (x / ?q))\<bar> * ?q
      \<le> \<bar>x / ?q - rat_of_int M\<bar> * ?q"
    using q by (simp add: mult_right_mono)
  moreover have "\<bar>x / ?q - rat_of_int (round_half_even (x / ?q))\<bar> * ?q =
      \<bar>x - float_round fmt x\<bar>"
  proof -
    have "\<bar>x / ?q - rat_of_int (round_half_even (x / ?q))\<bar> * ?q =
        \<bar>(x / ?q - rat_of_int (round_half_even (x / ?q))) * ?q\<bar>"
      using q by (simp add: abs_mult)
    also have "(x / ?q - rat_of_int (round_half_even (x / ?q))) * ?q =
        x - float_round fmt x"
      using q by (simp add: float_round_def field_simps)
    finally show ?thesis .
  qed
  moreover have "\<bar>x / ?q - rat_of_int M\<bar> * ?q = \<bar>x - rat_of_int M * ?q\<bar>"
  proof -
    have "\<bar>x / ?q - rat_of_int M\<bar> * ?q = \<bar>(x / ?q - rat_of_int M) * ?q\<bar>"
      using q by (simp add: abs_mult)
    also have "(x / ?q - rat_of_int M) * ?q = x - rat_of_int M * ?q"
      using q by (simp add: field_simps)
    finally show ?thesis .
  qed
  ultimately show ?thesis
    by simp
qed

lemma multiple_of_ulp:
  assumes "e \<le> j"
  shows "\<exists>M. rat_of_int m * 2 powi j = rat_of_int M * 2 powi e"
proof -
  have "(2::rat) powi j = 2 powi (j - e) * 2 powi e"
    by (simp flip: power_int_add)
  also have "(2::rat) powi (j - e) = rat_of_int (2 ^ nat (j - e))"
    using assms by (intro pow2_nat) simp
  finally have "rat_of_int m * 2 powi j = rat_of_int (m * 2 ^ nat (j - e)) * 2 powi e"
    by simp
  then show ?thesis ..
qed

lemma float_round_nearest:
  assumes fmt: "1 \<le> precision fmt" "emin fmt \<le> emax fmt"
    and rep: "representable fmt f"
  shows "\<bar>x - float_round fmt x\<bar> \<le> \<bar>x - f\<bar>"
proof -
  define e where "e = float_exponent fmt x"
  define p where "p = int (precision fmt)"
  have q: "float_ulp fmt x = 2 powi (e - (p - 1))"
    by (simp add: float_ulp_def e_def p_def)
  have p: "1 \<le> p"
    using fmt(1) by (simp add: p_def)
  have low: "emin fmt \<le> e" "e = emin fmt \<or> 2 powi e \<le> \<bar>x\<bar>"
    using float_exponent_low [OF fmt(2), of x] by (simp_all add: e_def)
  from rep obtain m j where
    f: "f = rat_of_int m * 2 powi j" and m: "\<bar>m\<bar> < 2 ^ precision fmt"
    and j: "emin fmt - (p - 1) \<le> j"
    by (auto simp: representable_def p_def)
  show ?thesis
  proof (cases "e = emin fmt \<or> 2 powi e \<le> \<bar>f\<bar>")
    case True
    have "e - (p - 1) \<le> j"
    proof (cases "e = emin fmt")
      case True
      with j show ?thesis by simp
    next
      case False
      with True have big: "2 powi e \<le> \<bar>f\<bar>"
        by simp
      have "rat_of_int \<bar>m\<bar> < rat_of_int (2 ^ precision fmt)"
        using m by (simp only: of_int_less_iff)
      then have less: "rat_of_int \<bar>m\<bar> < 2 powi p"
        by (simp add: p_def)
      have "(2::rat) powi e \<le> \<bar>f\<bar>"
        by (rule big)
      also have "\<bar>f\<bar> = rat_of_int \<bar>m\<bar> * 2 powi j"
        by (simp add: f abs_mult)
      also have "\<dots> < 2 powi p * 2 powi j"
        using less by (intro mult_strict_right_mono) simp_all
      also have "\<dots> = 2 powi (p + j)"
        by (simp add: power_int_add)
      finally have "(2::rat) powi e < 2 powi (p + j)" .
      then have "e < p + j"
        by (simp add: pow2_less_iff)
      then show ?thesis
        by simp
    qed
    then obtain M where "f = rat_of_int M * 2 powi (e - (p - 1))"
      unfolding f using multiple_of_ulp by blast
    then show ?thesis
      using float_round_multiple [of x fmt M] by (simp add: q)
  next
    case False
    then have small: "\<bar>f\<bar> < 2 powi e" and x_big: "2 powi e \<le> \<bar>x\<bar>"
      using low(2) by auto
    have pow: "(2::rat) powi e = rat_of_int (2 ^ nat (p - 1)) * 2 powi (e - (p - 1))"
    proof -
      have "(2::rat) powi e = 2 powi (p - 1) * 2 powi (e - (p - 1))"
        by (simp flip: power_int_add)
      also have "(2::rat) powi (p - 1) = rat_of_int (2 ^ nat (p - 1))"
        using p by (intro pow2_nat) simp
      finally show ?thesis .
    qed
    have e_pos: "(0::rat) < 2 powi e"
      by simp
    show ?thesis
    proof (cases "0 \<le> x")
      case True
      have "\<bar>x - float_round fmt x\<bar> \<le> \<bar>x - 2 powi e\<bar>"
        using float_round_multiple [of x fmt "2 ^ nat (p - 1)"] by (simp add: q pow)
      also have "\<dots> = x - 2 powi e"
        using True x_big by simp
      also have "\<dots> < x - \<bar>f\<bar>"
        using small by simp
      also have "\<dots> \<le> \<bar>x - f\<bar>"
        by (simp add: abs_if)
      finally show ?thesis
        by simp
    next
      case False
      have "\<bar>x - float_round fmt x\<bar> \<le> \<bar>x + 2 powi e\<bar>"
        using float_round_multiple [of x fmt "- (2 ^ nat (p - 1))"] by (simp add: q pow)
      also have "\<dots> = - x - 2 powi e"
        using False x_big by simp
      also have "\<dots> < - x - \<bar>f\<bar>"
        using small by simp
      also have "\<dots> \<le> \<bar>x - f\<bar>"
        by (simp add: abs_if)
      finally show ?thesis
        by simp
    qed
  qed
qed

lemma float_round_ge:
  assumes "1 \<le> precision fmt" "emin fmt \<le> emax fmt"
    and "representable fmt c" and "c \<le> x"
  shows "c \<le> float_round fmt x"
  using float_round_nearest [OF assms(1,2,3), of x] assms(4) by (simp add: abs_if split: if_splits)

lemma float_round_le:
  assumes "1 \<le> precision fmt" "emin fmt \<le> emax fmt"
    and "representable fmt c" and "x \<le> c"
  shows "float_round fmt x \<le> c"
  using float_round_nearest [OF assms(1,2,3), of x] assms(4) by (simp add: abs_if split: if_splits)

lemma float_round_exact:
  assumes "1 \<le> precision fmt" "emin fmt \<le> emax fmt" and "representable fmt x"
  shows "float_round fmt x = x"
  using float_round_nearest [OF assms, of x] by simp

lemma float_round_eval:
  assumes "emin fmt \<le> e" and "e \<le> emax fmt"
    and "2 powi e \<le> \<bar>x\<bar>" and "\<bar>x\<bar> < 2 powi (e + 1)"
  shows "float_round fmt x =
     rat_of_int (round_half_even (x / 2 powi (e - (int (precision fmt) - 1))))
       * 2 powi (e - (int (precision fmt) - 1))"
  by (simp add: float_round_def float_ulp_def float_exponent_eq [OF assms])

lemma representableI:
  assumes "\<bar>m\<bar> < 2 ^ precision fmt" and "emin fmt - (int (precision fmt) - 1) \<le> j"
  shows "representable fmt (rat_of_int m * 2 powi j)"
  using assms unfolding representable_def by blast

subsection \<open>The two formats\<close>

lemma format_facts:
  assumes "fmt = binary32 \<or> fmt = binary64"
  shows "1 \<le> precision fmt" and "emin fmt \<le> emax fmt" and "precision fmt \<le> 53"
    and "24 \<le> precision fmt" and "emin fmt - (int (precision fmt) - 1) \<le> - 149"
  using assms by (auto simp: binary32_def binary64_def)

lemma representable_dyadic:
  assumes fmt: "fmt = binary32 \<or> fmt = binary64"
    and a: "\<bar>a\<bar> < 2 ^ precision fmt" and d: "d \<le> 149"
  shows "representable fmt (rat_of_int a / 2 ^ d)"
proof -
  have "rat_of_int a / 2 ^ d = rat_of_int a * 2 powi (- int d)"
    by (simp add: power_int_minus divide_inverse)
  moreover have "emin fmt - (int (precision fmt) - 1) \<le> - int d"
    using format_facts(5) [OF fmt] d by simp
  ultimately show ?thesis
    using a representableI [of a fmt "- int d"] by simp
qed

lemma float_round_dyadic:
  assumes fmt: "fmt = binary32 \<or> fmt = binary64"
    and a: "\<bar>a\<bar> < 2 ^ 24" and d: "d \<le> 149"
  shows "float_round fmt (rat_of_int a / 2 ^ d) = rat_of_int a / 2 ^ d"
proof -
  have "(2::int) ^ 24 \<le> 2 ^ precision fmt"
    using format_facts(4) [OF fmt] by (intro power_increasing) simp_all
  with a have "\<bar>a\<bar> < 2 ^ precision fmt"
    by linarith
  then have "representable fmt (rat_of_int a / 2 ^ d)"
    using fmt d by (intro representable_dyadic)
  then show ?thesis
    using format_facts(1,2) [OF fmt] by (intro float_round_exact)
qed

lemma float_round_int:
  assumes "fmt = binary32 \<or> fmt = binary64" and "\<bar>a\<bar> < 2 ^ 24"
  shows "float_round fmt (rat_of_int a) = rat_of_int a"
  using float_round_dyadic [OF assms, of 0] by simp

lemma float_round_Ints:
  assumes "fmt = binary32 \<or> fmt = binary64" and "a \<in> \<int>" and "\<bar>a\<bar> < 16777216"
  shows "float_round fmt a = a"
proof -
  from assms(2) obtain z where a: "a = rat_of_int z"
    by (rule Ints_cases)
  with assms(3) have "rat_of_int \<bar>z\<bar> < rat_of_int 16777216"
    by simp
  then have "\<bar>z\<bar> < 16777216"
    by (simp only: of_int_less_iff)
  then have z: "\<bar>z\<bar> < 2 ^ 24"
    by simp
  show ?thesis
    unfolding a by (rule float_round_int [OF assms(1) z])
qed

lemma float_quotient_ge:
  assumes fmt: "fmt = binary32 \<or> fmt = binary64"
    and sp: "0 < sp"
    and rep: "representable fmt (a * sp)" "representable fmt a"
    and le: "a * sp \<le> x"
  shows "a \<le> float_round fmt (float_round fmt x / sp)"
proof -
  note ok = format_facts(1,2) [OF fmt]
  have "a * sp \<le> float_round fmt x"
    using ok rep(1) le by (rule float_round_ge)
  then have "a \<le> float_round fmt x / sp"
    using sp by (simp add: pos_le_divide_eq)
  with ok rep(2) show ?thesis
    by (rule float_round_ge)
qed

lemma float_quotient_le:
  assumes fmt: "fmt = binary32 \<or> fmt = binary64"
    and sp: "0 < sp"
    and rep: "representable fmt (c * sp)" "representable fmt c"
    and le: "x \<le> c * sp"
  shows "float_round fmt (float_round fmt x / sp) \<le> c"
proof -
  note ok = format_facts(1,2) [OF fmt]
  have "float_round fmt x \<le> c * sp"
    using ok rep(1) le by (rule float_round_le)
  then have "float_round fmt x / sp \<le> c"
    using sp by (simp add: pos_divide_le_eq)
  with ok rep(2) show ?thesis
    by (rule float_round_le)
qed

lemma representable_minus:
  assumes "representable fmt x"
  shows "representable fmt (- x)"
proof -
  from assms obtain m j where "x = rat_of_int m * 2 powi j" "\<bar>m\<bar> < 2 ^ precision fmt"
    "emin fmt - (int (precision fmt) - 1) \<le> j"
    unfolding representable_def by blast
  then have "- x = rat_of_int (- m) * 2 powi j" "\<bar>- m\<bar> < 2 ^ precision fmt"
    by simp_all
  with \<open>emin fmt - (int (precision fmt) - 1) \<le> j\<close> show ?thesis
    unfolding representable_def by blast
qed

section \<open>The MIDI number of a pitch string\<close>

lemma py_int_char_range: "py_int_char d = Some octave \<Longrightarrow> 0 \<le> octave \<and> octave \<le> 9"
  unfolding py_int_char_def by (simp split: if_splits)

lemma note_map_lookups:
  "dict_get note_map ''C'' 0 = 0" "dict_get note_map ''C#'' 0 = 1" "dict_get note_map ''Db'' 0 = 1"
  "dict_get note_map ''D'' 0 = 2" "dict_get note_map ''D#'' 0 = 3" "dict_get note_map ''Eb'' 0 = 3"
  "dict_get note_map ''E'' 0 = 4" "dict_get note_map ''F'' 0 = 5" "dict_get note_map ''F#'' 0 = 6"
  "dict_get note_map ''Gb'' 0 = 6" "dict_get note_map ''G'' 0 = 7" "dict_get note_map ''G#'' 0 = 8"
  "dict_get note_map ''Ab'' 0 = 8" "dict_get note_map ''A'' 0 = 9" "dict_get note_map ''A#'' 0 = 10"
  "dict_get note_map ''Bb'' 0 = 10" "dict_get note_map ''B'' 0 = 11"
  by (simp_all add: dict_get_def note_map_def)

lemma note_map_unlisted:
  "dict_get note_map ''E#'' 0 = 0" "dict_get note_map ''B#'' 0 = 0"
  "dict_get note_map ''Cb'' 0 = 0" "dict_get note_map ''Fb'' 0 = 0"
  "dict_get note_map ''H'' 0 = 0"
  by (simp_all add: dict_get_def note_map_def)

lemma letter_semitone_values:
  "letter_semitone CHR ''C'' = 0" "letter_semitone CHR ''D'' = 2" "letter_semitone CHR ''E'' = 4"
  "letter_semitone CHR ''F'' = 5" "letter_semitone CHR ''G'' = 7" "letter_semitone CHR ''A'' = 9"
  "letter_semitone CHR ''B'' = 11"
  by (simp_all add: letter_semitone_def dict_get_def)

lemma pitch_to_midi_number_two:
  "py_int_char d = Some octave \<Longrightarrow>
   pitch_to_midi_number [l, d] = max 0 (min 127 ((octave + 1) * 12 + dict_get note_map [l] 0))"
  by (simp add: pitch_to_midi_number_def)

lemma pitch_to_midi_number_three:
  "py_int_char d = Some octave \<Longrightarrow>
   pitch_to_midi_number [l, c, d] = max 0 (min 127 ((octave + 1) * 12 + dict_get note_map [l, c] 0))"
  by (simp add: pitch_to_midi_number_def)

lemma pitch_to_midi_number_range:
  "0 \<le> pitch_to_midi_number p \<and> pitch_to_midi_number p \<le> 127"
  by (simp add: pitch_to_midi_number_def split: option.split)

lemma pitch_to_midi_number_listed:
  assumes l: "l \<in> set ''CDEFGAB''"
    and a: "a \<in> {'''', ''#'', ''b''}"
    and listed: "(l, a) \<notin> unlisted_names"
    and d: "py_int_char d = Some octave"
  shows "pitch_to_midi_number (l # a @ [d]) = spec_midi_number l a octave"
proof -
  from a consider "a = ''''" | "a = ''#''" | "a = ''b''" by auto
  then show ?thesis
  proof cases
    case 1
    from l show ?thesis
      unfolding 1 spec_midi_number_def semitoneOffset_def
      by (auto simp: pitch_to_midi_number_two [OF d] note_map_lookups letter_semitone_values)
  next
    case 2
    from l listed show ?thesis
      unfolding 2 spec_midi_number_def semitoneOffset_def unlisted_names_def
      by (auto simp: pitch_to_midi_number_three [OF d] note_map_lookups letter_semitone_values)
  next
    case 3
    from l listed show ?thesis
      unfolding 3 spec_midi_number_def semitoneOffset_def unlisted_names_def
      by (auto simp: pitch_to_midi_number_three [OF d] note_map_lookups letter_semitone_values)
  qed
qed

lemma pitch_to_midi_number_unknown_name:
  assumes name: "length name = 1 \<or> length name = 2"
    and unknown: "map_of note_map name = None"
    and d: "py_int_char d = Some octave"
  shows "pitch_to_midi_number (name @ [d]) = (octave + 1) * 12"
proof -
  have get: "dict_get note_map name 0 = 0"
    using unknown by (simp add: dict_get_def)
  have bounds: "0 \<le> octave \<and> octave \<le> 9"
    using d by (rule py_int_char_range)
  from name show ?thesis
  proof
    assume "length name = 1"
    then obtain l where n: "name = [l]"
      by (cases name) auto
    show ?thesis
      using get bounds unfolding n by (simp add: pitch_to_midi_number_two [OF d])
  next
    assume "length name = 2"
    then obtain l c where n: "name = [l, c]"
      by (cases name; cases "tl name") auto
    show ?thesis
      using get bounds unfolding n by (simp add: pitch_to_midi_number_three [OF d])
  qed
qed

lemma pitch_to_midi_number_default:
  assumes "length p \<noteq> 2" and "length p \<noteq> 3"
  shows "pitch_to_midi_number p = 60"
  using assms by (simp add: pitch_to_midi_number_def)

lemma pitch_to_midi_number_no_digit:
  assumes "p \<noteq> []" and "py_int_char (last p) = None"
  shows "pitch_to_midi_number p = 60"
proof (cases "length p = 2 \<or> length p = 3")
  case False
  then show ?thesis by (simp add: pitch_to_midi_number_def)
next
  case True
  then have "last p = p ! (length p - 1)"
    using assms(1) by (simp add: last_conv_nth)
  with True assms(2) show ?thesis
    by (auto simp: pitch_to_midi_number_def)
qed

lemma pitch_to_midi_number_examples:
  "pitch_to_midi_number ''C4'' = 60" "pitch_to_midi_number ''A4'' = 69"
  "pitch_to_midi_number ''C#4'' = 61" "pitch_to_midi_number ''B3'' = 59"
  "pitch_to_midi_number ''H5'' = 72" "pitch_to_midi_number ''E#4'' = 60"
  "pitch_to_midi_number ''E4'' = 64" "pitch_to_midi_number ''D5'' = 74"
  "pitch_to_midi_number ''D5#'' = 60" "pitch_to_midi_number ''G4'' = 67"
  by (simp_all add: pitch_to_midi_number_def py_int_char_def note_map_lookups note_map_unlisted)

text \<open>
  C6, as the code has it. A pitch string made of one of the seventeen note names of the
  table and an octave digit maps to \<open>(octave + 1) * 12 + semitoneOffset\<close>, clamped into
  0..127; \<open>C4\<close>, \<open>A4\<close>, \<open>C#4\<close> and \<open>B3\<close> map to 60, 69, 61 and 59. A name of one or two
  characters that the table does not list (\<open>E#\<close>, \<open>Cb\<close>, \<open>H\<close>, ...) counts as offset 0, so
  such a string maps to \<open>(octave + 1) * 12\<close>. Every string of another length, and every
  string whose last character is not a digit, maps to 60. The function returns a number in
  0..127 on every string; it never raises.
\<close>

theorem pitch_to_midi_number_mapping:
  "(l \<in> set ''CDEFGAB'' \<and> a \<in> {'''', ''#'', ''b''} \<and> (l, a) \<notin> unlisted_names
      \<and> py_int_char d = Some octave
      \<longrightarrow> pitch_to_midi_number (l # a @ [d]) = spec_midi_number l a octave)
   \<and> ((length name = 1 \<or> length name = 2) \<and> map_of note_map name = None
      \<and> py_int_char d = Some octave
      \<longrightarrow> pitch_to_midi_number (name @ [d]) = (octave + 1) * 12)
   \<and> (length p \<notin> {2, 3} \<or> (p \<noteq> [] \<and> py_int_char (last p) = None)
      \<longrightarrow> pitch_to_midi_number p = 60)
   \<and> 0 \<le> pitch_to_midi_number p \<and> pitch_to_midi_number p \<le> 127
   \<and> pitch_to_midi_number ''C4'' = 60 \<and> pitch_to_midi_number ''A4'' = 69
   \<and> pitch_to_midi_number ''C#4'' = 61 \<and> pitch_to_midi_number ''B3'' = 59"
proof -
  have "length p \<notin> {2, 3} \<or> (p \<noteq> [] \<and> py_int_char (last p) = None)
      \<longrightarrow> pitch_to_midi_number p = 60"
    using pitch_to_midi_number_default [of p] pitch_to_midi_number_no_digit [of p] by auto
  then show ?thesis
    using pitch_to_midi_number_listed [of l a d octave]
      pitch_to_midi_number_unknown_name [of name d octave]
      pitch_to_midi_number_range [of p]
    by (simp add: pitch_to_midi_number_examples)
qed

theorem pitch_to_midi_number_mapping_witness:
  "pitch_to_midi_number ''F#3'' = spec_midi_number CHR ''F'' ''#'' 3
   \<and> spec_midi_number CHR ''F'' ''#'' 3 = 54
   \<and> pitch_to_midi_number ''Cb2'' = 36
   \<and> pitch_to_midi_number ''C4#'' = 60"
  using pitch_to_midi_number_mapping
    [where l = "CHR ''F''" and a = "''#''" and d = "CHR ''3''" and octave = 3
       and name = "''Cb''" and p = "''C4#''"]
    pitch_to_midi_number_mapping
    [where l = "CHR ''F''" and a = "''#''" and d = "CHR ''2''" and octave = 2
       and name = "''Cb''" and p = "''C4#''"]
  by (simp add: unlisted_names_def py_int_char_def note_map_def spec_midi_number_def
      semitoneOffset_def letter_semitone_values)

text \<open>
  The claim as worded fails twice: the well-formed \<open>E#4\<close> maps to 60 where the formula
  gives 65, and the malformed \<open>H5\<close> maps to 72, not to the default 60.
\<close>

theorem pitch_to_midi_number_counterexample:
  "pitch_to_midi_number ''E#4'' \<noteq> spec_midi_number CHR ''E'' ''#'' 4
   \<and> pitch_to_midi_number ''H5'' \<noteq> 60"
  by (simp add: pitch_to_midi_number_examples spec_midi_number_def semitoneOffset_def
      letter_semitone_values)

section \<open>Staff systems keep their spacing invariant\<close>

declare group_loop.simps [simp del]

lemma upt_0_4: "[0..<4] = [0, 1, 2, 3]"
  by (simp add: upt_rec)

lemma length_five:
  assumes "length g = 5"
  obtains a b c d e where "g = [a, b, c, d, e]"
proof -
  from assms have "\<exists>a b c d e. g = [a, b, c, d, e]"
    by (auto simp: numeral_eq_Suc length_Suc_conv)
  then show ?thesis
    using that by blast
qed

lemma validate_five:
  assumes "validate_staff_spacing [a, b, c, d, e]"
  shows "spacings_within_20_percent [a, b, c, d, e]"
  using assms
  unfolding validate_staff_spacing_def spacings_within_20_percent_def
    mean_spacing_def staff_spacings_def upt_0_4 Let_def
  by (simp add: not_less)

lemma validate_staff_spacing_invariant:
  assumes "validate_staff_spacing g"
  shows "length g = 5 \<and> spacings_within_20_percent g"
proof -
  from assms have len: "length g = 5"
    by (simp add: validate_staff_spacing_def split: if_splits)
  then obtain a b c d e where g: "g = [a, b, c, d, e]"
    by (rule length_five)
  from assms have "spacings_within_20_percent g"
    unfolding g by (rule validate_five)
  with len show ?thesis ..
qed

lemma group_loop_invariant:
  assumes "\<forall>g \<in> set staff_systems. validate_staff_spacing g"
  shows "\<forall>g \<in> set (group_loop horizontal_lines i staff_systems). validate_staff_spacing g"
  using assms
proof (induction horizontal_lines i staff_systems rule: group_loop.induct)
  case (1 horizontal_lines i staff_systems)
  show ?case
  proof (cases "int i < int (length horizontal_lines) - 4")
    case False
    then show ?thesis
      using "1.prems" by (subst group_loop.simps) simp
  next
    case in_range: True
    show ?thesis
    proof (cases "validate_staff_spacing (take 5 (drop i horizontal_lines))")
      case True
      have "\<forall>g \<in> set (group_loop horizontal_lines (i + 5)
                        (staff_systems @ [take 5 (drop i horizontal_lines)])).
              validate_staff_spacing g"
        using "1.IH"(1) [OF in_range refl True] "1.prems" True by simp
      then show ?thesis
        using in_range True by (subst group_loop.simps) simp
    next
      case False
      have "\<forall>g \<in> set (group_loop horizontal_lines (i + 1) staff_systems).
              validate_staff_spacing g"
        using "1.IH"(2) [OF in_range refl False] "1.prems" by simp
      then show ?thesis
        using in_range False by (subst group_loop.simps) simp
    qed
  qed
qed

lemma group_staff_lines_valid:
  "g \<in> set (group_staff_lines lines img_h) \<Longrightarrow> validate_staff_spacing g"
  using group_loop_invariant [of "[]"]
  by (auto simp: group_staff_lines_def split: option.splits)

lemma detect_staff_lines_enhanced_valid:
  "g \<in> set (detect_staff_lines_enhanced h img_h) \<Longrightarrow> validate_staff_spacing g"
  using group_staff_lines_valid
  by (auto simp: detect_staff_lines_enhanced_def split: sum.splits)

text \<open>
  C7. Every staff system that \<open>group_staff_lines\<close> returns, for any set of segments, has
  exactly five line coordinates, and each of its four consecutive spacings deviates from
  their mean by at most 20 percent; the same holds for what the detector returns.
\<close>

theorem staff_systems_spacing_invariant:
  "(\<forall>g \<in> set (group_staff_lines lines img_h).
      length g = 5 \<and> spacings_within_20_percent g)
   \<and> (\<forall>g \<in> set (detect_staff_lines_enhanced h img_h).
      length g = 5 \<and> spacings_within_20_percent g)"
  using group_staff_lines_valid detect_staff_lines_enhanced_valid
    validate_staff_spacing_invariant
  by blast

theorem staff_systems_spacing_invariant_witness:
  "[100, 150, 201, 250, 300] \<in> set (group_staff_lines
      (Some [(0, 200, 10, 202), (0, 100, 10, 100), (5, 150, 10, 151), (0, 250, 10, 250),
             (0, 300, 10, 300), (0, 0, 3, 40)]) 800)
   \<and> [100, 150, 201, 250, 300] \<in> set (detect_staff_lines_enhanced
      (Inr (Some [(0, 200, 10, 202), (0, 100, 10, 100), (5, 150, 10, 151), (0, 250, 10, 250),
             (0, 300, 10, 300), (0, 0, 3, 40)])) 800)
   \<and> length [100, 150, 201, 250, 300 :: int] = 5
   \<and> spacings_within_20_percent [100, 150, 201, 250, 300]"
proof -
  have run: "group_staff_lines
      (Some [(0, 200, 10, 202), (0, 100, 10, 100), (5, 150, 10, 151), (0, 250, 10, 250),
             (0, 300, 10, 300), (0, 0, 3, 40)]) 800 = [[100, 150, 201, 250, 300]]"
    by (simp add: group_staff_lines_def horizontal_midpoints_def group_loop.simps
        validate_staff_spacing_def upt_0_4 Let_def)
  show ?thesis
    using staff_systems_spacing_invariant
      [of "Some [(0, 200, 10, 202), (0, 100, 10, 100), (5, 150, 10, 151), (0, 250, 10, 250),
             (0, 300, 10, 300), (0, 0, 3, 40)]" 800
          "Inr (Some [(0, 200, 10, 202), (0, 100, 10, 100), (5, 150, 10, 151),
             (0, 250, 10, 250), (0, 300, 10, 300), (0, 0, 3, 40)])"]
    by (simp add: run detect_staff_lines_enhanced_def)
qed

section \<open>Pitch from the vertical position\<close>

lemma py_int_nonneg:
  assumes "rat_of_int k \<le> x" and "x < rat_of_int k + 1" and "0 \<le> x"
  shows "py_int x = k"
  using assms by (simp add: py_int_def floor_unique)

lemma py_int_above_minus_one:
  assumes "- 1 < x" and "x < 0"
  shows "py_int x = 0"
  using assms by (simp add: py_int_def ceiling_eq_iff)

lemma py_int_negative:
  assumes "x \<le> - 1"
  shows "py_int x < 0"
proof -
  from assms have "\<lceil>x\<rceil> \<le> - 1"
    by (simp add: ceiling_le_iff)
  with assms show ?thesis
    by (simp add: py_int_def)
qed

lemma py_int_large:
  assumes "rat_of_int k \<le> x" and "0 \<le> k"
  shows "k \<le> py_int x"
proof -
  from assms have "0 \<le> x"
    by (meson of_int_0_le_iff order_trans)
  with assms(1) show ?thesis
    by (simp add: py_int_def le_floor_iff)
qed

lemma py_int_between:
  assumes "rat_of_int k \<le> x" and "x \<le> rat_of_int k + 1" and "0 \<le> k"
  shows "py_int x = k \<or> py_int x = k + 1"
proof (cases "x = rat_of_int k + 1")
  case True
  then have "x = rat_of_int (k + 1)"
    by simp
  then have "py_int x = k + 1"
    using assms(3) by (simp add: py_int_def)
  then show ?thesis ..
next
  case False
  with assms(2) have "x < rat_of_int k + 1"
    by simp
  moreover from assms(1,3) have "0 \<le> x"
    by (meson of_int_0_le_iff order_trans)
  ultimately have "py_int x = k"
    using assms(1) by (intro py_int_nonneg)
  then show ?thesis ..
qed

lemma length_staff_pitches: "length staff_pitches = 11"
  by (simp add: staff_pitches_def)

text \<open>The position relative to the staff, as the code computes it.\<close>

lemma calculate_pitch_index:
  assumes "staff \<noteq> []" and "Min (set staff) < Max (set staff)"
  shows "calculate_pitch_from_staff_position fmt y staff =
     (if 0 \<le> py_int (float_round fmt (float_round fmt (y - staff_top staff) / line_spacing staff))
         \<and> py_int (float_round fmt (float_round fmt (y - staff_top staff) / line_spacing staff))
             < 11
      then Inr (staff_pitches !
             nat (py_int (float_round fmt
                            (float_round fmt (y - staff_top staff) / line_spacing staff))))
      else Inr ''C4'')"
  using assms
  by (simp add: calculate_pitch_from_staff_position_def staff_top_def line_spacing_def
      staff_pitches_def Let_def)

lemma calculate_pitch_degenerate:
  assumes "staff \<noteq> []" and "Min (set staff) = Max (set staff)"
  shows "calculate_pitch_from_staff_position fmt y staff = Inl DegenerateStaff"
  using assms by (simp add: calculate_pitch_from_staff_position_def)

lemma calculate_pitch_total:
  assumes "staff = [] \<or> Min (set staff) \<noteq> Max (set staff)"
  shows "\<exists>p. calculate_pitch_from_staff_position fmt y staff = Inr p"
  using assms by (auto simp: calculate_pitch_from_staff_position_def Let_def)

lemma line_spacing_positive:
  assumes "Min (set staff) < Max (set staff)"
  shows "0 < line_spacing staff"
  using assms by (simp add: line_spacing_def)

text \<open>
  The numbers the bands are compared with are numbers of the format, once the staff is
  small enough for the margin \<open>1 / 2 ^ m\<close>.
\<close>

lemma staff_multiples_representable:
  assumes fmt: "fmt = binary32 \<or> fmt = binary64"
    and staff: "Min (set staff) < Max (set staff)"
    and size: "11 * 2 ^ m * (Max (set staff) - Min (set staff)) < 2 ^ precision fmt"
    and a: "\<bar>a\<bar> \<le> 11"
  shows "representable fmt (rat_of_int a * line_spacing staff)"
    and "representable fmt (rat_of_int a)"
proof -
  define n where "n = Max (set staff) - Min (set staff)"
  have n: "1 \<le> n" and size': "11 * 2 ^ m * n < 2 ^ precision fmt"
    using staff size by (simp_all add: n_def)
  have pow: "(1::int) \<le> 2 ^ m"
    by simp
  have "\<bar>a * n\<bar> \<le> 11 * n"
    using a n by (simp add: abs_mult mult_right_mono)
  also have "11 * n \<le> 11 * 2 ^ m * n"
    using n pow by (simp add: mult_right_mono)
  finally have "\<bar>a * n\<bar> < 2 ^ precision fmt"
    using size' by linarith
  then have "representable fmt (rat_of_int (a * n) / 2 ^ 2)"
    using fmt by (intro representable_dyadic) simp_all
  then show "representable fmt (rat_of_int a * line_spacing staff)"
    by (simp add: line_spacing_def n_def)
  have "\<bar>a\<bar> \<le> 11 * 2 ^ m * n"
  proof -
    have "\<bar>a\<bar> \<le> 11 * 1"
      using a by simp
    also have "\<dots> \<le> 11 * (2 ^ m * n)"
      using n pow by (intro mult_left_mono) (simp_all add: mult_le_cancel_left1 order_trans)
    finally show ?thesis
      by (simp add: mult.assoc)
  qed
  then have "\<bar>a\<bar> < 2 ^ precision fmt"
    using size' by linarith
  then have "representable fmt (rat_of_int a / 2 ^ 0)"
    using fmt by (intro representable_dyadic) simp_all
  then show "representable fmt (rat_of_int a)"
    by simp
qed

lemma staff_margins_representable:
  assumes fmt: "fmt = binary32 \<or> fmt = binary64"
    and staff: "Min (set staff) < Max (set staff)"
    and size: "11 * 2 ^ m * (Max (set staff) - Min (set staff)) < 2 ^ precision fmt"
    and a: "1 \<le> a" "a \<le> 11"
  shows "representable fmt ((rat_of_int a - 1 / 2 ^ m) * line_spacing staff)"
    and "representable fmt (rat_of_int a - 1 / 2 ^ m)"
proof -
  define n where "n = Max (set staff) - Min (set staff)"
  define M where "M = a * 2 ^ m - 1"
  have n: "1 \<le> n" and size': "11 * 2 ^ m * n < 2 ^ precision fmt"
    using staff size by (simp_all add: n_def)
  have pow: "(1::int) \<le> 2 ^ m"
    by simp
  have M: "0 \<le> M" "M < 11 * 2 ^ m"
  proof -
    have "1 * 1 \<le> a * 2 ^ m"
      using a(1) pow by (intro mult_mono) simp_all
    then show "0 \<le> M"
      unfolding M_def by linarith
    have "a * 2 ^ m \<le> 11 * 2 ^ m"
      using a(2) by (intro mult_right_mono) simp_all
    then show "M < 11 * 2 ^ m"
      unfolding M_def by linarith
  qed
  have m_small: "m \<le> 147"
  proof (rule ccontr)
    assume "\<not> m \<le> 147"
    then have "53 \<le> m"
      by simp
    then have "(2::int) ^ 53 \<le> 2 ^ m"
      by (intro power_increasing) simp_all
    also have "\<dots> \<le> 11 * 2 ^ m * n"
      using n pow by (simp add: mult_le_cancel_right1 mult.commute mult_le_cancel_left1 order_trans)
    also have "\<dots> < 2 ^ precision fmt"
      by (rule size')
    also have "(2::int) ^ precision fmt \<le> 2 ^ 53"
      using format_facts(3) [OF fmt] by (intro power_increasing) simp_all
    finally show False
      by simp
  qed
  have "\<bar>M * n\<bar> = M * n"
    using M(1) n by simp
  also have "\<dots> \<le> 11 * 2 ^ m * n"
    using M(2) n by (intro mult_right_mono) simp_all
  finally have "\<bar>M * n\<bar> < 2 ^ precision fmt"
    using size' by linarith
  then have "representable fmt (rat_of_int (M * n) / 2 ^ (m + 2))"
    using fmt m_small by (intro representable_dyadic) simp_all
  moreover have "rat_of_int (M * n) / 2 ^ (m + 2) =
      (rat_of_int a - 1 / 2 ^ m) * line_spacing staff"
    by (simp add: M_def line_spacing_def n_def field_simps)
  ultimately show "representable fmt ((rat_of_int a - 1 / 2 ^ m) * line_spacing staff)"
    by simp
  have "M \<le> 11 * 2 ^ m * n"
  proof -
    have "M \<le> 11 * 2 ^ m * 1"
      using M(2) by simp
    also have "\<dots> \<le> 11 * 2 ^ m * n"
      using n by (intro mult_left_mono) simp_all
    finally show ?thesis .
  qed
  then have "\<bar>M\<bar> < 2 ^ precision fmt"
    using M(1) size' by linarith
  then have "representable fmt (rat_of_int M / 2 ^ m)"
    using fmt m_small by (intro representable_dyadic) simp_all
  moreover have "rat_of_int M / 2 ^ m = rat_of_int a - 1 / 2 ^ m"
    by (simp add: M_def field_simps)
  ultimately show "representable fmt (rat_of_int a - 1 / 2 ^ m)"
    by simp
qed

lemma calculate_pitch_band:
  assumes fmt: "fmt = binary32 \<or> fmt = binary64"
    and staff: "staff \<noteq> []" "Min (set staff) < Max (set staff)"
    and size: "11 * 2 ^ m * (Max (set staff) - Min (set staff)) < 2 ^ precision fmt"
    and k: "k < 11"
    and lo: "staff_top staff + rat_of_nat k * line_spacing staff \<le> y"
    and hi: "y \<le> staff_top staff + (rat_of_nat k + 1 - 1 / 2 ^ m) * line_spacing staff"
  shows "calculate_pitch_from_staff_position fmt y staff = Inr (staff_pitches ! k)"
proof -
  have sp: "0 < line_spacing staff"
    using staff(2) by (rule line_spacing_positive)
  let ?r = "float_round fmt (float_round fmt (y - staff_top staff) / line_spacing staff)"
  have "rat_of_int (int k) * line_spacing staff \<le> y - staff_top staff"
    using lo by simp
  then have r_lo: "rat_of_int (int k) \<le> ?r"
    using k staff_multiples_representable [OF fmt staff(2) size, of "int k"]
    by (intro float_quotient_ge [OF fmt sp]) simp_all
  have "y - staff_top staff \<le> (rat_of_int (int k + 1) - 1 / 2 ^ m) * line_spacing staff"
    using hi by simp
  then have "?r \<le> rat_of_int (int k + 1) - 1 / 2 ^ m"
    using k staff_margins_representable [OF fmt staff(2) size, of "int k + 1"]
    by (intro float_quotient_le [OF fmt sp]) simp_all
  moreover have "(0::rat) < 1 / 2 ^ m"
    by simp
  ultimately have r_hi: "?r < rat_of_int (int k) + 1"
    by (simp only: of_int_add of_int_1)
  have "0 \<le> ?r"
    using r_lo by (meson of_int_0_le_iff of_nat_0_le_iff order_trans)
  with r_lo r_hi have "py_int ?r = int k"
    by (intro py_int_nonneg)
  then show ?thesis
    using k by (simp add: calculate_pitch_index [OF staff])
qed

lemma calculate_pitch_band_edge:
  assumes fmt: "fmt = binary32 \<or> fmt = binary64"
    and staff: "staff \<noteq> []" "Min (set staff) < Max (set staff)"
    and size: "11 * 2 ^ m * (Max (set staff) - Min (set staff)) < 2 ^ precision fmt"
    and k: "k < 11"
    and lo: "staff_top staff + rat_of_nat k * line_spacing staff \<le> y"
    and hi: "y < staff_top staff + (rat_of_nat k + 1) * line_spacing staff"
  shows "calculate_pitch_from_staff_position fmt y staff = Inr (staff_pitches ! k)
     \<or> calculate_pitch_from_staff_position fmt y staff =
         Inr ((staff_pitches @ [''C4'']) ! (k + 1))"
proof -
  have sp: "0 < line_spacing staff"
    using staff(2) by (rule line_spacing_positive)
  let ?r = "float_round fmt (float_round fmt (y - staff_top staff) / line_spacing staff)"
  have "rat_of_int (int k) * line_spacing staff \<le> y - staff_top staff"
    using lo by simp
  then have r_lo: "rat_of_int (int k) \<le> ?r"
    using k staff_multiples_representable [OF fmt staff(2) size, of "int k"]
    by (intro float_quotient_ge [OF fmt sp]) simp_all
  have "y - staff_top staff \<le> rat_of_int (int k + 1) * line_spacing staff"
    using hi by simp
  then have "?r \<le> rat_of_int (int k + 1)"
    using k staff_multiples_representable [OF fmt staff(2) size, of "int k + 1"]
    by (intro float_quotient_le [OF fmt sp]) simp_all
  then have r_hi: "?r \<le> rat_of_int (int k) + 1"
    by simp
  from r_lo r_hi have "py_int ?r = int k \<or> py_int ?r = int k + 1"
    by (intro py_int_between) simp_all
  then show ?thesis
  proof
    assume "py_int ?r = int k"
    then show ?thesis
      using k by (simp add: calculate_pitch_index [OF staff])
  next
    assume next_index: "py_int ?r = int k + 1"
    have index: "nat (int k + 1) = k + 1"
      by simp
    have "calculate_pitch_from_staff_position fmt y staff =
        Inr ((staff_pitches @ [''C4'']) ! (k + 1))"
    proof (cases "k + 1 < 11")
      case True
      then show ?thesis
        by (simp add: calculate_pitch_index [OF staff] next_index index nth_append
            length_staff_pitches del: of_nat_Suc)
    next
      case False
      with k have "k + 1 = 11"
        by simp
      then show ?thesis
        by (simp add: calculate_pitch_index [OF staff] next_index nth_append
            length_staff_pitches)
    qed
    then show ?thesis ..
  qed
qed

lemma staff_margin_minus_representable:
  assumes fmt: "fmt = binary32 \<or> fmt = binary64"
    and staff: "Min (set staff) < Max (set staff)"
    and size: "11 * 2 ^ m * (Max (set staff) - Min (set staff)) < 2 ^ precision fmt"
    and c: "c = 1 - 1 / 2 ^ m"
  shows "representable fmt (- c * line_spacing staff)" and "representable fmt (- c)"
proof -
  have "representable fmt (c * line_spacing staff)" and c_rep: "representable fmt c"
    using staff_margins_representable [OF fmt staff size, of 1] by (simp_all add: c)
  then have "representable fmt (- (c * line_spacing staff))"
    by (intro representable_minus)
  then show "representable fmt (- c * line_spacing staff)"
    by (simp only: minus_mult_left)
  from c_rep show "representable fmt (- c)"
    by (rule representable_minus)
qed

lemma calculate_pitch_just_above:
  assumes fmt: "fmt = binary32 \<or> fmt = binary64"
    and staff: "staff \<noteq> []" "Min (set staff) < Max (set staff)"
    and size: "11 * 2 ^ m * (Max (set staff) - Min (set staff)) < 2 ^ precision fmt"
    and lo: "staff_top staff - (1 - 1 / 2 ^ m) * line_spacing staff \<le> y"
    and hi: "y < staff_top staff"
  shows "calculate_pitch_from_staff_position fmt y staff = Inr ''F5''"
proof -
  have sp: "0 < line_spacing staff"
    using staff(2) by (rule line_spacing_positive)
  let ?r = "float_round fmt (float_round fmt (y - staff_top staff) / line_spacing staff)"
  define c :: rat where "c = 1 - 1 / 2 ^ m"
  have "(0::rat) < 1 / 2 ^ m"
    by simp
  then have c_less: "c < 1"
    unfolding c_def by linarith
  have "- c * line_spacing staff = - ((1 - 1 / 2 ^ m) * line_spacing staff)"
    by (simp add: c_def algebra_simps)
  with lo have "- c * line_spacing staff \<le> y - staff_top staff"
    by linarith
  then have "- c \<le> ?r"
    using staff_margin_minus_representable [OF fmt staff(2) size c_def]
    by (intro float_quotient_ge [OF fmt sp])
  with c_less have r_lo: "- 1 < ?r"
    by linarith
  have "y - staff_top staff \<le> rat_of_int 0 * line_spacing staff"
    using hi by simp
  then have "?r \<le> rat_of_int 0"
    using staff_multiples_representable [OF fmt staff(2) size, of 0]
    by (intro float_quotient_le [OF fmt sp]) simp_all
  then have r_hi: "?r \<le> 0"
    by simp
  have "py_int ?r = 0"
  proof (cases "?r = 0")
    case True
    then show ?thesis
      by (simp add: py_int_def)
  next
    case False
    with r_hi have "?r < 0"
      by simp
    with r_lo show ?thesis
      by (rule py_int_above_minus_one)
  qed
  then show ?thesis
    by (simp add: calculate_pitch_index [OF staff] staff_pitches_def)
qed

lemma calculate_pitch_above_edge:
  assumes fmt: "fmt = binary32 \<or> fmt = binary64"
    and staff: "staff \<noteq> []" "Min (set staff) < Max (set staff)"
    and size: "11 * 2 ^ m * (Max (set staff) - Min (set staff)) < 2 ^ precision fmt"
    and lo: "staff_top staff - line_spacing staff < y"
    and hi: "y < staff_top staff"
  shows "calculate_pitch_from_staff_position fmt y staff = Inr ''F5''
     \<or> calculate_pitch_from_staff_position fmt y staff = Inr ''C4''"
proof -
  have sp: "0 < line_spacing staff"
    using staff(2) by (rule line_spacing_positive)
  let ?r = "float_round fmt (float_round fmt (y - staff_top staff) / line_spacing staff)"
  have "rat_of_int (- 1) * line_spacing staff \<le> y - staff_top staff"
    using lo by simp
  then have "rat_of_int (- 1) \<le> ?r"
    using staff_multiples_representable [OF fmt staff(2) size, of "- 1"]
    by (intro float_quotient_ge [OF fmt sp]) simp_all
  then have r_lo: "- 1 \<le> ?r"
    by simp
  have "y - staff_top staff \<le> rat_of_int 0 * line_spacing staff"
    using hi by simp
  then have "?r \<le> rat_of_int 0"
    using staff_multiples_representable [OF fmt staff(2) size, of 0]
    by (intro float_quotient_le [OF fmt sp]) simp_all
  then have r_hi: "?r \<le> 0"
    by simp
  show ?thesis
  proof (cases "?r = - 1")
    case True
    then have "py_int ?r = - 1"
      by (simp add: py_int_def ceiling_eq_iff)
    then have "calculate_pitch_from_staff_position fmt y staff = Inr ''C4''"
      by (simp add: calculate_pitch_index [OF staff])
    then show ?thesis ..
  next
    case False
    with r_lo have above: "- 1 < ?r"
      by simp
    have "py_int ?r = 0"
    proof (cases "?r = 0")
      case True
      then show ?thesis
        by (simp add: py_int_def)
    next
      case False
      with r_hi have "?r < 0"
        by simp
      with above show ?thesis
        by (rule py_int_above_minus_one)
    qed
    then have "calculate_pitch_from_staff_position fmt y staff = Inr ''F5''"
      by (simp add: calculate_pitch_index [OF staff] staff_pitches_def)
    then show ?thesis ..
  qed
qed

lemma calculate_pitch_outside:
  assumes fmt: "fmt = binary32 \<or> fmt = binary64"
    and staff: "staff \<noteq> []" "Min (set staff) < Max (set staff)"
    and size: "11 * 2 ^ m * (Max (set staff) - Min (set staff)) < 2 ^ precision fmt"
    and out: "y \<le> staff_top staff - line_spacing staff
              \<or> staff_top staff + 11 * line_spacing staff \<le> y"
  shows "calculate_pitch_from_staff_position fmt y staff = Inr ''C4''"
proof -
  have sp: "0 < line_spacing staff"
    using staff(2) by (rule line_spacing_positive)
  let ?r = "float_round fmt (float_round fmt (y - staff_top staff) / line_spacing staff)"
  from out have "py_int ?r < 0 \<or> 11 \<le> py_int ?r"
  proof
    assume "y \<le> staff_top staff - line_spacing staff"
    then have "y - staff_top staff \<le> rat_of_int (- 1) * line_spacing staff"
      by simp
    then have "?r \<le> rat_of_int (- 1)"
      using staff_multiples_representable [OF fmt staff(2) size, of "- 1"]
      by (intro float_quotient_le [OF fmt sp]) simp_all
    then have "?r \<le> - 1"
      by simp
    then show ?thesis
      using py_int_negative by blast
  next
    assume "staff_top staff + 11 * line_spacing staff \<le> y"
    then have "rat_of_int 11 * line_spacing staff \<le> y - staff_top staff"
      by simp
    then have "rat_of_int 11 \<le> ?r"
      using staff_multiples_representable [OF fmt staff(2) size, of 11]
      by (intro float_quotient_ge [OF fmt sp]) simp_all
    then have "11 \<le> py_int ?r"
      by (rule py_int_large) simp
    then show ?thesis ..
  qed
  then show ?thesis
    by (auto simp: calculate_pitch_index [OF staff])
qed

lemma make_symbol_note:
  assumes "str_in ''note'' (class_name (det_cls d))"
    and "make_symbol fmt d staff = Inr s"
  shows "calculate_pitch_from_staff_position fmt (center_y d) staff = Inr (pitch s)
     \<and> cls s = class_name (det_cls d)
     \<and> duration s = dict_get SYMBOL_DURATIONS (class_name (det_cls d)) 1
     \<and> accidental s = None"
  using assms by (auto simp: make_symbol_def Let_def split: sum.splits)

lemma make_symbol_total:
  assumes "staff = [] \<or> Min (set staff) \<noteq> Max (set staff)"
  shows "\<exists>s. make_symbol fmt d staff = Inr s"
proof -
  obtain p where "calculate_pitch_from_staff_position fmt (center_y d) staff = Inr p"
    using calculate_pitch_total [OF assms] by blast
  then show ?thesis
    by (simp add: make_symbol_def Let_def)
qed

lemma fallback_staff_bounds:
  "Min (set [100, 150, 200, 250, 300 :: int]) = 100"
  "Max (set [100, 150, 200, 250, 300 :: int]) = 300"
  by simp_all

text \<open>
  A detection whose exact center is just below 150: the \<open>float32\<close> sum of its two
  edges, 137.5 - 2^-16 and 162.5, is a tie that rounds to 300, so the center the code
  works with is 150.
\<close>

lemma center_y_rounds:
  "center_y \<lparr>det_x1 = 150, det_y1 = 9011199 / 65536, det_x2 = 170, det_y2 = 325 / 2,
             det_conf = 9 / 10, det_cls = 2\<rparr> = 150"
proof -
  have fl: "\<lfloor>19660799 / 2 :: rat\<rfloor> = 9830399"
    by (simp add: floor_eq_iff)
  have tie: "round_half_even (19660799 / 2) = 9830400"
    by (simp add: round_half_even_def fl Let_def)
  have "float_round binary32 (19660799 / 65536) =
      rat_of_int (round_half_even (19660799 / 65536 / 2 powi (8 - (int (precision binary32) - 1))))
        * 2 powi (8 - (int (precision binary32) - 1))"
    by (rule float_round_eval) (simp_all add: binary32_def)
  then have sum: "float_round binary32 (19660799 / 65536) = 300"
    by (simp add: binary32_def tie)
  have half: "float_round binary32 150 = 150"
    using float_round_int [of binary32 150] by simp
  show ?thesis
    by (simp add: center_y_def sum half)
qed

text \<open>
  C4, as the code has it. The pitch of a note-like detection comes from
  \<open>calculate_pitch_from_staff_position\<close> at the center that the code computes in
  \<open>float32\<close>. With the top line \<open>min\<close> and the spacing \<open>(max - min) / 4\<close> of a staff
  whose outer lines differ, the index is \<open>(y - top) / spacing\<close>, both operations
  rounded, truncated toward zero, and looked up in the one ladder F5 down to C4. For a
  staff small enough for the margin \<open>1 / 2 ^ m\<close>: a center from the start of the \<open>k\<close>-th
  band of one spacing below the top line up to that margin before its end gets entry \<open>k\<close>
  of the ladder, and in the rest of the band entry \<open>k\<close> or the next one (C4 after the
  last); a center above the top line by less than one spacing minus the margin gets entry
  0, and by less than one spacing entry 0 or C4; every other center, like every center on
  an empty staff, gets C4.
\<close>

theorem pitch_from_staff_position_bands:
  assumes "fmt = binary32 \<or> fmt = binary64"
    and "staff \<noteq> []" and "Min (set staff) < Max (set staff)"
    and "11 * 2 ^ m * (Max (set staff) - Min (set staff)) < 2 ^ precision fmt"
  shows "(k < 11 \<and> staff_top staff + rat_of_nat k * line_spacing staff \<le> y
          \<and> y \<le> staff_top staff + (rat_of_nat k + 1 - 1 / 2 ^ m) * line_spacing staff
          \<longrightarrow> calculate_pitch_from_staff_position fmt y staff = Inr (staff_pitches ! k))
     \<and> (k < 11 \<and> staff_top staff + rat_of_nat k * line_spacing staff \<le> y
          \<and> y < staff_top staff + (rat_of_nat k + 1) * line_spacing staff
          \<longrightarrow> calculate_pitch_from_staff_position fmt y staff = Inr (staff_pitches ! k)
            \<or> calculate_pitch_from_staff_position fmt y staff =
                Inr ((staff_pitches @ [''C4'']) ! (k + 1)))
     \<and> (staff_top staff - (1 - 1 / 2 ^ m) * line_spacing staff \<le> y \<and> y < staff_top staff
          \<longrightarrow> calculate_pitch_from_staff_position fmt y staff = Inr ''F5'')
     \<and> (staff_top staff - line_spacing staff < y \<and> y < staff_top staff
          \<longrightarrow> calculate_pitch_from_staff_position fmt y staff = Inr ''F5''
            \<or> calculate_pitch_from_staff_position fmt y staff = Inr ''C4'')
     \<and> (y \<le> staff_top staff - line_spacing staff
          \<or> staff_top staff + 11 * line_spacing staff \<le> y
          \<longrightarrow> calculate_pitch_from_staff_position fmt y staff = Inr ''C4'')
     \<and> calculate_pitch_from_staff_position fmt y [] = Inr ''C4''
     \<and> (str_in ''note'' (class_name (det_cls d))
          \<longrightarrow> (\<exists>s. make_symbol fmt d staff = Inr s
                \<and> calculate_pitch_from_staff_position fmt (center_y d) staff = Inr (pitch s)))"
proof -
  have built: "str_in ''note'' (class_name (det_cls d))
      \<longrightarrow> (\<exists>s. make_symbol fmt d staff = Inr s
            \<and> calculate_pitch_from_staff_position fmt (center_y d) staff = Inr (pitch s))"
    using make_symbol_total [of staff fmt d] make_symbol_note [of d fmt staff] assms(3)
    by fastforce
  have empty: "calculate_pitch_from_staff_position fmt y [] = Inr ''C4''"
    by (simp add: calculate_pitch_from_staff_position_def)
  from built empty show ?thesis
    using calculate_pitch_band [OF assms, of k y] calculate_pitch_band_edge [OF assms, of k y]
      calculate_pitch_just_above [OF assms, of y] calculate_pitch_above_edge [OF assms, of y]
      calculate_pitch_outside [OF assms, of y]
    by blast
qed

theorem pitch_from_staff_position_bands_witness:
  "calculate_pitch_from_staff_position binary64 210 [100, 150, 200, 250, 300] = Inr ''D5''
   \<and> calculate_pitch_from_staff_position binary64 90 [100, 150, 200, 250, 300] = Inr ''F5''
   \<and> calculate_pitch_from_staff_position binary64 1000 [100, 150, 200, 250, 300] = Inr ''C4''
   \<and> calculate_pitch_from_staff_position binary64
        (center_y \<lparr>det_x1 = 150, det_y1 = 9011199 / 65536, det_x2 = 170, det_y2 = 325 / 2,
                   det_conf = 9 / 10, det_cls = 2\<rparr>) [100, 150, 200, 250, 300] = Inr ''E5''
   \<and> (\<exists>s. make_symbol binary64
             \<lparr>det_x1 = 150, det_y1 = 9011199 / 65536, det_x2 = 170, det_y2 = 325 / 2,
              det_conf = 9 / 10, det_cls = 2\<rparr> [100, 150, 200, 250, 300] = Inr s
          \<and> pitch s = ''E5'')"
proof -
  have fmt: "binary64 = binary32 \<or> binary64 = binary64"
    by simp
  have staff: "[100, 150, 200, 250, 300 :: int] \<noteq> []"
    "Min (set [100, 150, 200, 250, 300 :: int]) < Max (set [100, 150, 200, 250, 300])"
    by simp_all
  have size: "11 * 2 ^ 30 *
      (Max (set [100, 150, 200, 250, 300 :: int]) - Min (set [100, 150, 200, 250, 300]))
      < 2 ^ precision binary64"
    by (simp add: binary64_def)
  have note_class: "str_in ''note'' (class_name 2)"
    by (simp add: class_name_def dict_get_def MUSICAL_SYMBOL_CLASSES_def)
  show ?thesis
    using pitch_from_staff_position_bands [OF fmt staff size, where k = 2 and y = 210
        and d = "\<lparr>det_x1 = 150, det_y1 = 9011199 / 65536, det_x2 = 170, det_y2 = 325 / 2,
                   det_conf = 9 / 10, det_cls = 2\<rparr>"]
      pitch_from_staff_position_bands [OF fmt staff size, where k = 2 and y = 90
        and d = "\<lparr>det_x1 = 150, det_y1 = 9011199 / 65536, det_x2 = 170, det_y2 = 325 / 2,
                   det_conf = 9 / 10, det_cls = 2\<rparr>"]
      pitch_from_staff_position_bands [OF fmt staff size, where k = 2 and y = 1000
        and d = "\<lparr>det_x1 = 150, det_y1 = 9011199 / 65536, det_x2 = 170, det_y2 = 325 / 2,
                   det_conf = 9 / 10, det_cls = 2\<rparr>"]
      pitch_from_staff_position_bands [OF fmt staff size, where k = 1 and y = 150
        and d = "\<lparr>det_x1 = 150, det_y1 = 9011199 / 65536, det_x2 = 170, det_y2 = 325 / 2,
                   det_conf = 9 / 10, det_cls = 2\<rparr>"]
    by (auto simp: staff_top_def line_spacing_def staff_pitches_def center_y_rounds
        note_class)
qed

text \<open>
  The rule as the claim words it differs from both functions of the source. On the staff
  \<open>[100, 150, 200, 250, 300]\<close> a center of 200 gets D5 from the detector path, where the
  worded rule gives index 5, which is G4 on the treble ladder; and the helper of
  \<open>app.py\<close>, which truncates where the claim rounds, gives G4 at 237.5 where rounding
  gives F4. All the operations are exact at these inputs.
\<close>

theorem pitch_rule_counterexample:
  "calculate_pitch_from_staff_position binary64 200 [100, 150, 200, 250, 300] = Inr ''D5''
   \<and> spec_pitch 200 [100, 150, 200, 250, 300] ''treble'' = ''G4''
   \<and> calculate_pitch_from_position binary64 (475 / 2) [100, 150, 200, 250, 300] ''treble''
        = Inr ''G4''
   \<and> spec_pitch (475 / 2) [100, 150, 200, 250, 300] ''treble'' = ''F4''"
proof -
  have fmt: "binary64 = binary32 \<or> binary64 = binary64"
    by simp
  have exact: "float_round binary64 100 = 100" "float_round binary64 2 = 2"
    "float_round binary64 200 = 200"
    using float_round_int [OF fmt, of 100] float_round_int [OF fmt, of 2]
      float_round_int [OF fmt, of 200]
    by simp_all
  have halves: "float_round binary64 (75 / 2) = 75 / 2"
    "float_round binary64 (3 / 4) = 3 / 4" "float_round binary64 (23 / 4) = 23 / 4"
    using float_round_dyadic [OF fmt, of 75 1] float_round_dyadic [OF fmt, of 3 2]
      float_round_dyadic [OF fmt, of 23 2]
    by simp_all
  have trunc: "py_int (23 / 4) = 5"
    by (simp add: py_int_def floor_eq_iff)
  have "\<lfloor>23 / 4 :: rat\<rfloor> = 5"
    by (simp add: floor_eq_iff)
  then have rounded: "round_half_even (23 / 4) = 6"
    by (simp add: round_half_even_def Let_def)
  have a: "calculate_pitch_from_staff_position binary64 200 [100, 150, 200, 250, 300] = Inr ''D5''"
    by (simp add: calculate_pitch_from_staff_position_def exact py_int_def staff_pitches_def
        Let_def)
  have b: "spec_pitch 200 [100, 150, 200, 250, 300] ''treble'' = ''G4''"
    by (simp add: spec_pitch_def round_half_even_def dict_get_def pitch_mapping_def
        treble_pitches_def Let_def)
  have c: "calculate_pitch_from_position binary64 (475 / 2) [100, 150, 200, 250, 300] ''treble''
      = Inr ''G4''"
    by (simp add: calculate_pitch_from_position_def exact halves trunc dict_get_def
        pitch_mapping_def treble_pitches_def Let_def)
  have d: "spec_pitch (475 / 2) [100, 150, 200, 250, 300] ''treble'' = ''F4''"
    by (simp add: spec_pitch_def rounded dict_get_def pitch_mapping_def treble_pitches_def
        Let_def)
  from a b c d show ?thesis
    by simp
qed

section \<open>Which staff system the symbols are built on\<close>

lemma process_detections_nth:
  assumes "process_detections_enhanced fmt ds staff = Inr syms"
  shows "length syms = length ds
     \<and> (\<forall>i < length ds. make_symbol fmt (ds ! i) staff = Inr (syms ! i))"
  using assms
proof (induction ds arbitrary: syms)
  case Nil
  then show ?case by simp
next
  case (Cons d ds)
  from Cons.prems obtain s ss where
    s: "make_symbol fmt d staff = Inr s" and
    ss: "process_detections_enhanced fmt ds staff = Inr ss" and
    syms: "syms = s # ss"
    by (auto split: sum.splits)
  from Cons.IH [OF ss] show ?case
    by (auto simp: syms s nth_Cons split: nat.splits)
qed

lemma process_detections_total:
  assumes "staff = [] \<or> Min (set staff) \<noteq> Max (set staff)"
  shows "\<exists>syms. process_detections_enhanced fmt ds staff = Inr syms"
proof (induction ds)
  case Nil
  show ?case by simp
next
  case (Cons d ds)
  then obtain syms where "process_detections_enhanced fmt ds staff = Inr syms"
    by blast
  moreover obtain s where "make_symbol fmt d staff = Inr s"
    using make_symbol_total [OF assms] by blast
  ultimately show ?case
    by simp
qed

text \<open>
  C5, as the code has it. The analysis hands the first staff system to the symbol builder,
  whatever the vertical position of a detection: the symbols do not depend on the other
  systems, and the pitch of every note-like detection is the one computed on the first
  system, so a center in the \<open>k\<close>-th band of the first system, up to the margin before
  the band's end, gets entry \<open>k\<close> of the ladder.
\<close>

theorem symbols_use_first_staff_system:
  assumes "analysis_symbols fmt (Some (Inr ds)) (first # others) = Inr syms"
    and "i < length ds"
    and "str_in ''note'' (class_name (det_cls (ds ! i)))"
  shows "calculate_pitch_from_staff_position fmt (center_y (ds ! i)) first
       = Inr (pitch (syms ! i))
     \<and> analysis_symbols fmt (Some (Inr ds)) (first # others') = Inr syms
     \<and> ((fmt = binary32 \<or> fmt = binary64) \<and> first \<noteq> []
          \<and> Min (set first) < Max (set first)
          \<and> 11 * 2 ^ m * (Max (set first) - Min (set first)) < 2 ^ precision fmt
          \<and> k < 11
          \<and> staff_top first + rat_of_nat k * line_spacing first \<le> center_y (ds ! i)
          \<and> center_y (ds ! i)
               \<le> staff_top first + (rat_of_nat k + 1 - 1 / 2 ^ m) * line_spacing first
        \<longrightarrow> pitch (syms ! i) = staff_pitches ! k)"
proof -
  from assms(1) have run: "process_detections_enhanced fmt ds first = Inr syms"
    by (simp add: analysis_symbols_def)
  then have "make_symbol fmt (ds ! i) first = Inr (syms ! i)"
    using process_detections_nth assms(2) by blast
  with assms(3) have computed:
    "calculate_pitch_from_staff_position fmt (center_y (ds ! i)) first = Inr (pitch (syms ! i))"
    using make_symbol_note by blast
  have "pitch (syms ! i) = staff_pitches ! k"
    if "fmt = binary32 \<or> fmt = binary64" "first \<noteq> []" "Min (set first) < Max (set first)"
      "11 * 2 ^ m * (Max (set first) - Min (set first)) < 2 ^ precision fmt" "k < 11"
      "staff_top first + rat_of_nat k * line_spacing first \<le> center_y (ds ! i)"
      "center_y (ds ! i)
         \<le> staff_top first + (rat_of_nat k + 1 - 1 / 2 ^ m) * line_spacing first"
    using calculate_pitch_band [OF that] computed by simp
  with computed run show ?thesis
    by (simp add: analysis_symbols_def)
qed

theorem symbols_use_first_staff_system_witness:
  "analysis_symbols binary64
     (Some (Inr [\<lparr>det_x1 = 150, det_y1 = 540, det_x2 = 170, det_y2 = 560, det_conf = 9 / 10,
                  det_cls = 2\<rparr>]))
     [[100, 150, 200, 250, 300], [500, 550, 600, 650, 700]] =
     Inr [\<lparr>cls = ''quarter_note'', confidence = 9 / 10, box = (150, 540, 20, 20),
           pitch = ''D4'', duration = 1, accidental = None\<rparr>]
   \<and> calculate_pitch_from_staff_position binary64 550 [100, 150, 200, 250, 300] = Inr ''D4''
   \<and> analysis_symbols binary64
     (Some (Inr [\<lparr>det_x1 = 150, det_y1 = 540, det_x2 = 170, det_y2 = 560, det_conf = 9 / 10,
                  det_cls = 2\<rparr>]))
     [[100, 150, 200, 250, 300]] =
     Inr [\<lparr>cls = ''quarter_note'', confidence = 9 / 10, box = (150, 540, 20, 20),
           pitch = ''D4'', duration = 1, accidental = None\<rparr>]
   \<and> staff_pitches ! 9 = ''D4''"
proof -
  have fmt: "binary64 = binary32 \<or> binary64 = binary64" "binary32 = binary32 \<or> binary32 = binary64"
    by simp_all
  have run: "analysis_symbols binary64
     (Some (Inr [\<lparr>det_x1 = 150, det_y1 = 540, det_x2 = 170, det_y2 = 560, det_conf = 9 / 10,
                  det_cls = 2\<rparr>]))
     [[100, 150, 200, 250, 300], [500, 550, 600, 650, 700]] =
     Inr [\<lparr>cls = ''quarter_note'', confidence = 9 / 10, box = (150, 540, 20, 20),
           pitch = ''D4'', duration = 1, accidental = None\<rparr>]"
    by (simp add: analysis_symbols_def make_symbol_def class_name_def dict_get_def
        MUSICAL_SYMBOL_CLASSES_def SYMBOL_DURATIONS_def center_y_def
        calculate_pitch_from_staff_position_def staff_pitches_def py_int_def Let_def
        float_round_Ints fmt)
  have prec: "precision binary64 = 53"
    by (simp add: binary64_def)
  show ?thesis
    using symbols_use_first_staff_system
      [where fmt = binary64 and m = 30 and k = 9
         and ds = "[\<lparr>det_x1 = 150, det_y1 = 540, det_x2 = 170, det_y2 = 560,
                       det_conf = 9 / 10, det_cls = 2\<rparr>]"
         and first = "[100, 150, 200, 250, 300]"
         and others = "[[500, 550, 600, 650, 700]]" and others' = "[]" and i = 0
         and syms = "[\<lparr>cls = ''quarter_note'', confidence = 9 / 10, box = (150, 540, 20, 20),
                        pitch = ''D4'', duration = 1, accidental = None\<rparr>]"]
    by (simp add: run class_name_def dict_get_def MUSICAL_SYMBOL_CLASSES_def center_y_def
        float_round_Ints fmt prec staff_top_def line_spacing_def)
qed

text \<open>
  The claim as worded fails: with the systems \<open>[100, ..., 300]\<close> and \<open>[500, ..., 700]\<close> a
  quarter note centered at 550 lies on the second system, the nearest one, where it is
  an E5; the analysis gives it the D4 of the first system.
\<close>

theorem nearest_staff_counterexample:
  "nearest_system 550 [[100, 150, 200, 250, 300], [500, 550, 600, 650, 700]] =
     [500, 550, 600, 650, 700]
   \<and> calculate_pitch_from_staff_position binary64 550 [500, 550, 600, 650, 700] = Inr ''E5''
   \<and> analysis_symbols binary64
     (Some (Inr [\<lparr>det_x1 = 150, det_y1 = 540, det_x2 = 170, det_y2 = 560, det_conf = 9 / 10,
                  det_cls = 2\<rparr>]))
     [[100, 150, 200, 250, 300], [500, 550, 600, 650, 700]] =
     Inr [\<lparr>cls = ''quarter_note'', confidence = 9 / 10, box = (150, 540, 20, 20),
           pitch = ''D4'', duration = 1, accidental = None\<rparr>]"
proof -
  have fmt: "binary64 = binary32 \<or> binary64 = binary64" "binary32 = binary32 \<or> binary32 = binary64"
    by simp_all
  show ?thesis
    by (simp add: nearest_system.simps staff_distance_def analysis_symbols_def make_symbol_def
        class_name_def dict_get_def MUSICAL_SYMBOL_CLASSES_def SYMBOL_DURATIONS_def
        center_y_def calculate_pitch_from_staff_position_def staff_pitches_def py_int_def
        Let_def float_round_Ints fmt)
qed

section \<open>The accidental binder\<close>

lemma apply_accidentals_length:
  "length (apply_accidentals_to_notes symbols) =
   length (filter (\<lambda>s. \<not> is_accidental s) symbols)"
  by (simp add: apply_accidentals_to_notes_def Let_def)

lemma apply_accidentals_nth:
  assumes "i < length (filter (\<lambda>s. \<not> is_accidental s) symbols)"
  shows "apply_accidentals_to_notes symbols ! i =
     (if is_note (filter (\<lambda>s. \<not> is_accidental s) symbols ! i)
      then bind_accidental (filter is_accidental symbols)
             (filter (\<lambda>s. \<not> is_accidental s) symbols ! i)
      else filter (\<lambda>s. \<not> is_accidental s) symbols ! i)"
  using assms by (simp add: apply_accidentals_to_notes_def Let_def)

lemma closest_step_outside:
  assumes "\<not> (box_x a < box_x n \<and> \<bar>box_y a - box_y n\<bar> < 20)"
  shows "closest_step n a st = st"
  using assms by (cases st) (auto simp: closest_step_def)

lemma fold_closest_step_outside:
  assumes "\<forall>a \<in> set accs. \<not> (box_x a < box_x n \<and> \<bar>box_y a - box_y n\<bar> < 20)"
  shows "fold (closest_step n) accs st = st"
  using assms by (induction accs arbitrary: st) (simp_all add: closest_step_outside)

lemma bind_accidental_none_near:
  assumes "\<forall>a \<in> set accs. \<not> (box_x a < box_x n \<and> \<bar>box_y a - box_y n\<bar> < 20)"
  shows "bind_accidental accs n = n"
  using fold_closest_step_outside [OF assms]
  by (simp add: bind_accidental_def find_closest_accidental_def)






text \<open>
  C9, as the code has it. The binder compares the second entry of the two boxes, the top
  edge, not the vertical centers. A symbol that the binder keeps is returned unchanged, at
  its position among the kept symbols, whenever no accidental of the input lies strictly to
  its left with a top edge less than 20 pixels from its own.
\<close>

theorem binder_leaves_note_unchanged:
  assumes "i < length (filter (\<lambda>s. \<not> is_accidental s) symbols)"
    and "n = filter (\<lambda>s. \<not> is_accidental s) symbols ! i"
    and "\<forall>a \<in> set symbols.
           is_accidental a \<longrightarrow> \<not> (box_x a < box_x n \<and> \<bar>box_y a - box_y n\<bar> < 20)"
  shows "length (apply_accidentals_to_notes symbols) =
           length (filter (\<lambda>s. \<not> is_accidental s) symbols)
         \<and> apply_accidentals_to_notes symbols ! i = n"
proof -
  have "\<forall>a \<in> set (filter is_accidental symbols).
          \<not> (box_x a < box_x n \<and> \<bar>box_y a - box_y n\<bar> < 20)"
    using assms(3) by simp
  then have "bind_accidental (filter is_accidental symbols) n = n"
    by (rule bind_accidental_none_near)
  then show ?thesis
    using assms(1,2) by (simp add: apply_accidentals_length apply_accidentals_nth)
qed

theorem binder_leaves_note_unchanged_witness:
  "apply_accidentals_to_notes
     [\<lparr>cls = ''sharp'', confidence = 1, box = (100, 130, 10, 30), pitch = ''C4'',
       duration = 1, accidental = None\<rparr>,
      \<lparr>cls = ''quarter_note'', confidence = 1, box = (150, 180, 20, 25), pitch = ''E4'',
       duration = 1, accidental = None\<rparr>] ! 0 =
     \<lparr>cls = ''quarter_note'', confidence = 1, box = (150, 180, 20, 25), pitch = ''E4'',
      duration = 1, accidental = None\<rparr>"
  using binder_leaves_note_unchanged
    [where i = 0
       and n = "\<lparr>cls = ''quarter_note'', confidence = 1, box = (150, 180, 20, 25),
                  pitch = ''E4'', duration = 1, accidental = None\<rparr>"
       and symbols =
         "[\<lparr>cls = ''sharp'', confidence = 1, box = (100, 130, 10, 30), pitch = ''C4'',
            duration = 1, accidental = None\<rparr>,
           \<lparr>cls = ''quarter_note'', confidence = 1, box = (150, 180, 20, 25), pitch = ''E4'',
            duration = 1, accidental = None\<rparr>]"]
  by (simp add: is_accidental_def box_x_def box_y_def)

text \<open>
  With vertical centers the claim fails: a sharp with box \<open>(100, 170, 10, 30)\<close> has its
  center at 185 and the note with box \<open>(150, 180, 20, 80)\<close> has its center at 220, which is
  35 away, yet the top edges are 10 apart and the note is changed.
\<close>

theorem binder_centers_counterexample:
  "\<not> \<bar>box_center_y
         \<lparr>cls = ''sharp'', confidence = 1, box = (100, 170, 10, 30), pitch = ''C4'',
          duration = 1, accidental = None\<rparr>
      - box_center_y
         \<lparr>cls = ''quarter_note'', confidence = 1, box = (150, 180, 20, 80), pitch = ''C4'',
          duration = 1, accidental = None\<rparr>\<bar> < 20
   \<and> apply_accidentals_to_notes
     [\<lparr>cls = ''sharp'', confidence = 1, box = (100, 170, 10, 30), pitch = ''C4'',
       duration = 1, accidental = None\<rparr>,
      \<lparr>cls = ''quarter_note'', confidence = 1, box = (150, 180, 20, 80), pitch = ''C4'',
       duration = 1, accidental = None\<rparr>] =
     [\<lparr>cls = ''quarter_note'', confidence = 1, box = (150, 180, 20, 80), pitch = ''C#4'',
       duration = 1, accidental = Some ''sharp''\<rparr>]"
  by (simp add: box_center_y_def box_x_def box_y_def box_h_def apply_accidentals_to_notes_def
      is_accidental_def is_note_def bind_accidental_def find_closest_accidental_def
      closest_step_def sharpen_def str_replace_def)

section \<open>What a bound accidental does to the pitch\<close>











section \<open>Measures\<close>

lemma filter_append_sorted:
  assumes "sorted (map f xs)"
    and "\<And>s t. Q1 s \<Longrightarrow> Q2 t \<Longrightarrow> f s < (f t :: int)"
  shows "filter Q1 xs @ filter Q2 xs = filter (\<lambda>s. Q1 s \<or> Q2 s) xs"
  using assms(1)
proof (induction xs)
  case Nil
  show ?case by simp
next
  case (Cons y ys)
  then have later: "\<forall>z \<in> set ys. f y \<le> f z" and tail: "sorted (map f ys)"
    by simp_all
  note IH = Cons.IH [OF tail]
  show ?case
  proof (cases "Q1 y")
    case True
    then have "\<not> Q2 y"
      using assms(2) [of y y] by auto
    with True IH show ?thesis
      by simp
  next
    case no_first: False
    show ?thesis
    proof (cases "Q2 y")
      case True
      have "\<forall>z \<in> set ys. \<not> Q1 z"
      proof
        fix z
        assume "z \<in> set ys"
        with later have "f y \<le> f z"
          by blast
        then show "\<not> Q1 z"
          using assms(2) [of z y] True by auto
      qed
      then have "filter Q1 ys = []"
        by (simp add: filter_empty_conv)
      with True no_first IH show ?thesis
        by simp
    next
      case False
      with no_first IH show ?thesis
        by simp
    qed
  qed
qed

lemma measure_loop_concat:
  assumes "sorted (map box_x xs)"
    and "sorted (map box_x bars)"
    and "\<forall>b \<in> set bars. start \<le> box_x b"
  shows "concat (measure_loop bars xs start acc) =
     concat acc @
       filter (\<lambda>s. start \<le> box_x s
                   \<and> box_x s < (if bars = [] then start else box_x (last bars))
                   \<and> \<not> str_in ''bar_line'' (cls s)) xs"
  using assms(2,3)
proof (induction bars arbitrary: start acc)
  case Nil
  show ?case by simp
next
  case (Cons b rest)
  let ?L = "if rest = [] then box_x b else box_x (last rest)"
  let ?first = "\<lambda>s. start \<le> box_x s \<and> box_x s < box_x b \<and> \<not> str_in ''bar_line'' (cls s)"
  let ?second = "\<lambda>s. box_x b \<le> box_x s \<and> box_x s < ?L \<and> \<not> str_in ''bar_line'' (cls s)"
  from Cons.prems have rest_sorted: "sorted (map box_x rest)"
    and rest_above: "\<forall>c \<in> set rest. box_x b \<le> box_x c"
    and start_b: "start \<le> box_x b"
    by simp_all
  have b_L: "box_x b \<le> ?L"
    using rest_above by simp
  have step: "concat (measure_loop (b # rest) xs start acc) =
      (concat acc @ filter ?first xs) @ filter ?second xs"
    using Cons.IH [OF rest_sorted rest_above, of "if filter ?first xs \<noteq> [] then acc @ [filter ?first xs] else acc"]
    by (simp add: Let_def)
  have "filter ?first xs @ filter ?second xs = filter (\<lambda>s. ?first s \<or> ?second s) xs"
    using assms(1) by (rule filter_append_sorted) simp
  also have "\<dots> = filter (\<lambda>s. start \<le> box_x s \<and> box_x s < ?L
        \<and> \<not> str_in ''bar_line'' (cls s)) xs"
    using start_b b_L by (intro filter_cong refl) auto
  finally show ?case
    using step by simp
qed

text \<open>
  What the grouping gives on every input with pixel coordinates from 0 on and class names
  of the detector's table: without bar lines the one measure is the sorted sequence; with
  bar lines the measures, concatenated, are the sorted sequence without the bar lines and
  without the symbols at the x of the last bar line.
\<close>

lemma group_symbols_by_measure_concat:
  assumes nonneg: "\<forall>s \<in> set symbols. 0 \<le> box_x s"
    and names: "\<forall>s \<in> set symbols. str_in ''bar_line'' (cls s) \<longrightarrow> is_bar_line s"
  shows "concat (group_symbols_by_measure symbols staff_lines) =
     (if filter is_bar_line (sort_key box_x symbols) = [] then sort_key box_x symbols
      else filter (\<lambda>s. \<not> is_bar_line s
                       \<and> box_x s \<noteq> box_x (last (filter is_bar_line (sort_key box_x symbols))))
             (sort_key box_x symbols))"
proof (cases "filter is_bar_line (sort_key box_x symbols) = []")
  case True
  then show ?thesis
    by (simp add: group_symbols_by_measure_def)
next
  case False
  let ?xs = "sort_key box_x symbols"
  let ?bars = "filter is_bar_line ?xs"
  let ?L = "box_x (last ?bars)"
  let ?inner = "\<lambda>s. 0 \<le> box_x s \<and> box_x s < ?L \<and> \<not> str_in ''bar_line'' (cls s)"
  let ?final = "\<lambda>s. ?L < box_x s \<and> \<not> str_in ''bar_line'' (cls s)"
  have xs_sorted: "sorted (map box_x ?xs)"
    by (rule sorted_sort_key)
  then have bars_sorted: "sorted (map box_x ?bars)"
    by (rule sorted_filter)
  have bars_nonneg: "\<forall>b \<in> set ?bars. 0 \<le> box_x b"
    using nonneg by simp
  have loop: "concat (measure_loop ?bars ?xs 0 []) = filter ?inner ?xs"
    using measure_loop_concat [OF xs_sorted bars_sorted bars_nonneg, of "[]"] False by simp
  have "concat (group_symbols_by_measure symbols staff_lines) =
      filter ?inner ?xs @ filter ?final ?xs"
    using False loop by (simp add: group_symbols_by_measure_def Let_def)
  also have "\<dots> = filter (\<lambda>s. ?inner s \<or> ?final s) ?xs"
    using xs_sorted by (rule filter_append_sorted) simp
  also have "\<dots> = filter (\<lambda>s. \<not> is_bar_line s \<and> box_x s \<noteq> ?L) ?xs"
  proof (intro filter_cong refl)
    fix s
    assume "s \<in> set ?xs"
    then have s: "s \<in> set symbols"
      by simp
    have "is_bar_line s \<Longrightarrow> str_in ''bar_line'' (cls s)"
      by (auto simp: is_bar_line_def)
    with s names have "str_in ''bar_line'' (cls s) \<longleftrightarrow> is_bar_line s"
      by blast
    with s nonneg show "(?inner s \<or> ?final s) = (\<not> is_bar_line s \<and> box_x s \<noteq> ?L)"
      by auto
  qed
  finally show ?thesis
    using False by simp
qed


text \<open>
  C1 at an input that the code can receive: a note at x = 40, a bar line whose box starts
  at x = 100, a note on another staff whose box starts at the same x = 100, and a note at
  x = 140. The loop over the bar lines takes the symbols with \<open>0 \<le> x < 100\<close>, the final
  step takes those with \<open>100 < x\<close>, so the note at 100 is in no measure, while between two
  bar lines the test \<open>measure_start \<le> x\<close> does take a symbol at the earlier bar line's x.
\<close>

theorem measures_drop_note_at_last_bar_line:
  "group_symbols_by_measure
     [\<lparr>cls = ''quarter_note'', confidence = 1, box = (40, 300, 20, 25), pitch = ''E4'',
       duration = 1, accidental = None\<rparr>,
      \<lparr>cls = ''bar_line'', confidence = 1, box = (100, 50, 5, 200), pitch = ''C4'',
       duration = 1, accidental = None\<rparr>,
      \<lparr>cls = ''quarter_note'', confidence = 1, box = (100, 300, 20, 25), pitch = ''G4'',
       duration = 1, accidental = None\<rparr>,
      \<lparr>cls = ''quarter_note'', confidence = 1, box = (140, 300, 20, 25), pitch = ''A4'',
       duration = 1, accidental = None\<rparr>] [[100, 150, 200, 250, 300]] =
     [[\<lparr>cls = ''quarter_note'', confidence = 1, box = (40, 300, 20, 25), pitch = ''E4'',
        duration = 1, accidental = None\<rparr>],
      [\<lparr>cls = ''quarter_note'', confidence = 1, box = (140, 300, 20, 25), pitch = ''A4'',
        duration = 1, accidental = None\<rparr>]]
   \<and> group_symbols_by_measure
     [\<lparr>cls = ''bar_line'', confidence = 1, box = (100, 50, 5, 200), pitch = ''C4'',
       duration = 1, accidental = None\<rparr>,
      \<lparr>cls = ''quarter_note'', confidence = 1, box = (100, 300, 20, 25), pitch = ''G4'',
       duration = 1, accidental = None\<rparr>,
      \<lparr>cls = ''bar_line'', confidence = 1, box = (200, 50, 5, 200), pitch = ''C4'',
       duration = 1, accidental = None\<rparr>] [[100, 150, 200, 250, 300]] =
     [[\<lparr>cls = ''quarter_note'', confidence = 1, box = (100, 300, 20, 25), pitch = ''G4'',
        duration = 1, accidental = None\<rparr>]]"
  by (simp add: group_symbols_by_measure_def is_bar_line_def box_x_def Let_def)

section \<open>The time cursor of the MIDI encoder\<close>

lemma midi_loop_Nil: "midi_loop [] = (0, [])"
  by (simp add: midi_loop_def)

lemma midi_loop_snoc: "midi_loop (pre @ [s]) = midi_step s (midi_loop pre)"
  by (simp add: midi_loop_def)

lemma midi_step_note:
  assumes "is_note s"
  shows "midi_step s (t, added) =
     (t + duration s,
      added @ [\<lparr>note_pitch = pitch_to_midi_number (pitch s), note_time = t,
                 note_duration = duration s, note_volume = 100\<rparr>])"
  using assms by (simp add: midi_step_def is_note_def)

lemma midi_step_other:
  assumes "\<not> is_note s"
  shows "midi_step s st = st"
  using assms by (cases st) (simp add: midi_step_def is_note_def)

lemma rest_is_no_note:
  assumes "cls s \<in> set rest_classes"
  shows "\<not> is_note s"
  using assms by (auto simp: rest_classes_def is_note_def)

text \<open>
  C2, as the code has it. The cursor starts at 0 beats with no event. A note-like symbol
  adds one note with velocity 100 whose note-on is at the cursor and whose note-off is
  where the cursor stands after it has advanced by the symbol's duration. Every other
  symbol, a rest included, adds no event and leaves the cursor where it is. The file
  written holds exactly the notes of the loop.
\<close>

theorem midi_cursor_steps:
  "midi_loop [] = (0, [])
   \<and> (is_note s \<longrightarrow>
        fst (midi_loop (pre @ [s])) = fst (midi_loop pre) + duration s
        \<and> snd (midi_loop (pre @ [s])) =
            snd (midi_loop pre) @
              [\<lparr>note_pitch = pitch_to_midi_number (pitch s), note_time = fst (midi_loop pre),
                 note_duration = duration s, note_volume = 100\<rparr>]
        \<and> note_off_time (last (snd (midi_loop (pre @ [s])))) = fst (midi_loop (pre @ [s])))
   \<and> (\<not> is_note s \<longrightarrow> midi_loop (pre @ [s]) = midi_loop pre)
   \<and> (cls s \<in> set rest_classes \<longrightarrow> midi_loop (pre @ [s]) = midi_loop pre)
   \<and> generate_midi_file symbols True b =
        Inr \<lparr>track_name = ''Transcribed Music'', tempo = b,
             midi_notes = snd (midi_loop symbols)\<rparr>"
proof -
  obtain t added where st: "midi_loop pre = (t, added)"
    by (cases "midi_loop pre")
  have stepped: "is_note s \<Longrightarrow> midi_loop (pre @ [s]) =
     (t + duration s,
      added @ [\<lparr>note_pitch = pitch_to_midi_number (pitch s), note_time = t,
                 note_duration = duration s, note_volume = 100\<rparr>])"
    by (simp add: midi_loop_snoc st midi_step_note)
  have other: "\<not> is_note s \<Longrightarrow> midi_loop (pre @ [s]) = midi_loop pre"
    by (simp add: midi_loop_snoc midi_step_other)
  have rest: "cls s \<in> set rest_classes \<Longrightarrow> midi_loop (pre @ [s]) = midi_loop pre"
    using other rest_is_no_note by blast
  show ?thesis
    using stepped other rest
    by (simp add: midi_loop_Nil st note_off_time_def generate_midi_file_def)
qed

theorem midi_cursor_steps_witness:
  "midi_loop
     [\<lparr>cls = ''quarter_note'', confidence = 1, box = (150, 180, 20, 25), pitch = ''E4'',
       duration = 1, accidental = None\<rparr>] =
     (1, [\<lparr>note_pitch = 64, note_time = 0, note_duration = 1, note_volume = 100\<rparr>])
   \<and> midi_loop
     [\<lparr>cls = ''half_rest'', confidence = 1, box = (150, 180, 20, 25), pitch = ''C4'',
       duration = 2, accidental = None\<rparr>] = (0, [])"
  using midi_cursor_steps
    [where pre = "[]" and symbols = "[]" and b = 120
       and s = "\<lparr>cls = ''quarter_note'', confidence = 1, box = (150, 180, 20, 25),
                  pitch = ''E4'', duration = 1, accidental = None\<rparr>"]
    midi_cursor_steps
    [where pre = "[]" and symbols = "[]" and b = 120
       and s = "\<lparr>cls = ''half_rest'', confidence = 1, box = (150, 180, 20, 25),
                  pitch = ''C4'', duration = 2, accidental = None\<rparr>"]
  by (simp add: is_note_def rest_classes_def pitch_to_midi_number_examples prod_eq_iff)

text \<open>
  The claim as worded fails on rests: after a quarter rest of one beat the cursor is still
  at 0, and the note that follows the rest starts at 0, not at 1.
\<close>

theorem midi_rest_counterexample:
  "fst (midi_loop
     [\<lparr>cls = ''quarter_rest'', confidence = 1, box = (100, 180, 20, 25), pitch = ''C4'',
       duration = 1, accidental = None\<rparr>]) \<noteq> fst (midi_loop []) + 1
   \<and> snd (midi_loop
     [\<lparr>cls = ''quarter_rest'', confidence = 1, box = (100, 180, 20, 25), pitch = ''C4'',
       duration = 1, accidental = None\<rparr>,
      \<lparr>cls = ''quarter_note'', confidence = 1, box = (150, 180, 20, 25), pitch = ''C4'',
       duration = 1, accidental = None\<rparr>]) =
     [\<lparr>note_pitch = 60, note_time = 0, note_duration = 1, note_volume = 100\<rparr>]"
  by (simp add: midi_loop_def midi_step_def pitch_to_midi_number_examples)

section \<open>No staff lines: the fallback staff\<close>

lemma detect_nothing:
  "detect_staff_lines_enhanced (Inl err) h = []"
  "detect_staff_lines_enhanced (Inr None) h = []"
  by (simp_all add: detect_staff_lines_enhanced_def group_staff_lines_def)

lemma fallback_staff_size:
  assumes "fmt = binary32 \<or> fmt = binary64"
  shows "11 * 2 ^ 10 *
     (Max (set [100, 150, 200, 250, 300 :: int]) - Min (set [100, 150, 200, 250, 300]))
     < 2 ^ precision fmt"
  using assms by (auto simp: binary32_def binary64_def)

lemma fallback_staff_geometry:
  "staff_top [100, 150, 200, 250, 300] = 100" "line_spacing [100, 150, 200, 250, 300] = 50"
  by (simp_all add: staff_top_def line_spacing_def)

lemma mock_analysis:
  "apply_accidentals_to_notes mock_symbols = mock_symbols"
  "group_symbols_by_measure mock_symbols staff_lines = [mock_symbols]"
  "snd (midi_loop mock_symbols) =
     [\<lparr>note_pitch = 64, note_time = 0, note_duration = 1, note_volume = 100\<rparr>,
      \<lparr>note_pitch = 67, note_time = 1, note_duration = 2, note_volume = 100\<rparr>]"
  by (simp_all add: mock_symbols_def apply_accidentals_to_notes_def is_accidental_def
      is_note_def bind_accidental_def find_closest_accidental_def
      group_symbols_by_measure_def is_bar_line_def box_x_def midi_loop_def midi_step_def
      pitch_to_midi_number_examples Let_def)

text \<open>
  C8. The staff detector returns a list on every outcome of the image stages: the empty
  list when one of them raises and when no segment is found. Whenever it returns the empty
  list, the analysis of a loaded image builds its symbols on the one staff
  \<open>[100, 150, 200, 250, 300]\<close> and ends with the success result made from them, given
  that the detector's \<open>predict\<close> call does not raise and the MIDI file can be written:
  a note-like detection whose center lies in the \<open>k\<close>-th band of 50 pixels below 100, up
  to the margin before the band's end, has entry \<open>k\<close> of the ladder as its pitch. Without
  a detector the result is the one of the two built-in symbols.
\<close>

theorem empty_staff_detection_falls_back:
  "(hg = Inl err \<or> hg = Inr None \<longrightarrow> detect_staff_lines_enhanced hg h = [])
   \<and> (detect_staff_lines_enhanced (hough e) (image_height e) = []
        \<and> image_loaded e \<and> midi_write_ok e \<and> detector e = Some (Inr ds)
        \<and> (position_format e = binary32 \<or> position_format e = binary64)
      \<longrightarrow> (\<exists>syms.
            process_detections_enhanced (position_format e) ds [100, 150, 200, 250, 300]
              = Inr syms
            \<and> length syms = length ds
            \<and> analyze_sheet_music e =
                Inr (analysis_result (apply_accidentals_to_notes syms)
                       (group_symbols_by_measure (apply_accidentals_to_notes syms)
                          [[100, 150, 200, 250, 300]])
                       \<lparr>track_name = ''Transcribed Music'', tempo = 120,
                        midi_notes = snd (midi_loop (apply_accidentals_to_notes syms))\<rparr>)
            \<and> (i < length ds \<and> str_in ''note'' (class_name (det_cls (ds ! i))) \<and> k < 11
                 \<and> 100 + rat_of_nat k * 50 \<le> center_y (ds ! i)
                 \<and> center_y (ds ! i) \<le> 100 + (rat_of_nat k + 1 - 1 / 2 ^ 10) * 50
               \<longrightarrow> pitch (syms ! i) = staff_pitches ! k)))
   \<and> (detect_staff_lines_enhanced (hough e) (image_height e) = []
        \<and> image_loaded e \<and> midi_write_ok e \<and> detector e = None
      \<longrightarrow> analyze_sheet_music e =
            Inr (analysis_result mock_symbols [mock_symbols]
                   \<lparr>track_name = ''Transcribed Music'', tempo = 120,
                    midi_notes =
                      [\<lparr>note_pitch = 64, note_time = 0, note_duration = 1,
                        note_volume = 100\<rparr>,
                       \<lparr>note_pitch = 67, note_time = 1, note_duration = 2,
                        note_volume = 100\<rparr>]\<rparr>))"
proof -
  let ?staff = "[100, 150, 200, 250, 300 :: int]"
  have first: "hg = Inl err \<or> hg = Inr None \<longrightarrow> detect_staff_lines_enhanced hg h = []"
    using detect_nothing by auto
  have second: "\<exists>syms.
      process_detections_enhanced (position_format e) ds ?staff = Inr syms
      \<and> length syms = length ds
      \<and> analyze_sheet_music e =
          Inr (analysis_result (apply_accidentals_to_notes syms)
                 (group_symbols_by_measure (apply_accidentals_to_notes syms) [?staff])
                 \<lparr>track_name = ''Transcribed Music'', tempo = 120,
                  midi_notes = snd (midi_loop (apply_accidentals_to_notes syms))\<rparr>)
      \<and> (i < length ds \<and> str_in ''note'' (class_name (det_cls (ds ! i))) \<and> k < 11
           \<and> 100 + rat_of_nat k * 50 \<le> center_y (ds ! i)
           \<and> center_y (ds ! i) \<le> 100 + (rat_of_nat k + 1 - 1 / 2 ^ 10) * 50
         \<longrightarrow> pitch (syms ! i) = staff_pitches ! k)"
    if empty: "detect_staff_lines_enhanced (hough e) (image_height e) = []"
      and ok: "image_loaded e" "midi_write_ok e"
      and det: "detector e = Some (Inr ds)"
      and fmt: "position_format e = binary32 \<or> position_format e = binary64"
  proof -
    have staff: "analysis_staff_lines e = [?staff]"
      using empty by (simp add: analysis_staff_lines_def fallback_staff_def)
    obtain syms where
      syms: "process_detections_enhanced (position_format e) ds ?staff = Inr syms"
      using process_detections_total [of ?staff "position_format e" ds]
      by (auto simp: fallback_staff_bounds)
    have len: "length syms = length ds"
      and each: "\<forall>j < length ds. make_symbol (position_format e) (ds ! j) ?staff = Inr (syms ! j)"
      using process_detections_nth [OF syms] by simp_all
    have result: "analyze_sheet_music e =
          Inr (analysis_result (apply_accidentals_to_notes syms)
                 (group_symbols_by_measure (apply_accidentals_to_notes syms) [?staff])
                 \<lparr>track_name = ''Transcribed Music'', tempo = 120,
                  midi_notes = snd (midi_loop (apply_accidentals_to_notes syms))\<rparr>)"
      using ok det syms
      by (simp add: analyze_sheet_music_def staff analysis_symbols_def generate_midi_file_def
          Let_def)
    have band: "pitch (syms ! i) = staff_pitches ! k"
      if i: "i < length ds" and is_note: "str_in ''note'' (class_name (det_cls (ds ! i)))"
        and k: "k < 11"
        and lo: "100 + rat_of_nat k * 50 \<le> center_y (ds ! i)"
        and hi: "center_y (ds ! i) \<le> 100 + (rat_of_nat k + 1 - 1 / 2 ^ 10) * 50"
    proof -
      have "make_symbol (position_format e) (ds ! i) ?staff = Inr (syms ! i)"
        using each i by blast
      then have "calculate_pitch_from_staff_position (position_format e) (center_y (ds ! i))
          ?staff = Inr (pitch (syms ! i))"
        using make_symbol_note [OF is_note] by blast
      moreover have "calculate_pitch_from_staff_position (position_format e)
          (center_y (ds ! i)) ?staff = Inr (staff_pitches ! k)"
        using lo hi
        by (intro calculate_pitch_band [OF fmt _ _ fallback_staff_size [OF fmt] k])
          (simp_all add: fallback_staff_geometry)
      ultimately show ?thesis
        by simp
    qed
    from syms len result band show ?thesis
      by blast
  qed
  have third: "analyze_sheet_music e =
      Inr (analysis_result mock_symbols [mock_symbols]
             \<lparr>track_name = ''Transcribed Music'', tempo = 120,
              midi_notes =
                [\<lparr>note_pitch = 64, note_time = 0, note_duration = 1, note_volume = 100\<rparr>,
                 \<lparr>note_pitch = 67, note_time = 1, note_duration = 2,
                  note_volume = 100\<rparr>]\<rparr>)"
    if "detect_staff_lines_enhanced (hough e) (image_height e) = []"
      and "image_loaded e" "midi_write_ok e" and "detector e = None"
    using that
    by (simp add: analyze_sheet_music_def analysis_symbols_def generate_midi_file_def
        mock_analysis Let_def)
  from first second third show ?thesis
    by blast
qed

theorem empty_staff_detection_falls_back_witness:
  "detect_staff_lines_enhanced (Inr None) 600 = []
   \<and> analyze_sheet_music
       \<lparr>image_loaded = True, image_height = 600, hough = Inr None,
        detector = Some (Inr [\<lparr>det_x1 = 150, det_y1 = 190, det_x2 = 170, det_y2 = 210,
                                det_conf = 9 / 10, det_cls = 2\<rparr>]),
        position_format = binary32, midi_write_ok = True\<rparr> =
     Inr \<lparr>bpm = 120, time_signature = ''4/4'', key_signature = ''C major'',
          notes_out =
            [\<lparr>summary_pitch = ''D5'', summary_duration = ''quarter'',
              summary_box = (150, 190, 20, 20)\<rparr>],
          measures_count = 1, symbols_detected = 1,
          midi =
            \<lparr>track_name = ''Transcribed Music'', tempo = 120,
             midi_notes =
               [\<lparr>note_pitch = 74, note_time = 0, note_duration = 1,
                 note_volume = 100\<rparr>]\<rparr>\<rparr>"
proof -
  have fmt: "binary32 = binary32 \<or> binary32 = binary64"
    by simp
  have sym: "make_symbol binary32
        \<lparr>det_x1 = 150, det_y1 = 190, det_x2 = 170, det_y2 = 210, det_conf = 9 / 10,
         det_cls = 2\<rparr> [100, 150, 200, 250, 300] =
      Inr \<lparr>cls = ''quarter_note'', confidence = 9 / 10, box = (150, 190, 20, 20),
           pitch = ''D5'', duration = 1, accidental = None\<rparr>"
    by (simp add: make_symbol_def class_name_def dict_get_def MUSICAL_SYMBOL_CLASSES_def
        SYMBOL_DURATIONS_def center_y_def calculate_pitch_from_staff_position_def
        staff_pitches_def py_int_def Let_def float_round_Ints fmt)
  have unbound: "apply_accidentals_to_notes
        [\<lparr>cls = ''quarter_note'', confidence = 9 / 10, box = (150, 190, 20, 20),
          pitch = ''D5'', duration = 1, accidental = None\<rparr>] =
      [\<lparr>cls = ''quarter_note'', confidence = 9 / 10, box = (150, 190, 20, 20),
        pitch = ''D5'', duration = 1, accidental = None\<rparr>]"
    by (simp add: apply_accidentals_to_notes_def is_accidental_def is_note_def
        bind_accidental_def find_closest_accidental_def)
  show ?thesis
    using empty_staff_detection_falls_back
      [where hg = "Inr None" and h = 600 and i = 0 and k = 2
         and ds = "[\<lparr>det_x1 = 150, det_y1 = 190, det_x2 = 170, det_y2 = 210,
                      det_conf = 9 / 10, det_cls = 2\<rparr>]"
         and e = "\<lparr>image_loaded = True, image_height = 600, hough = Inr None,
                    detector = Some (Inr [\<lparr>det_x1 = 150, det_y1 = 190, det_x2 = 170,
                                            det_y2 = 210, det_conf = 9 / 10, det_cls = 2\<rparr>]),
                    position_format = binary32, midi_write_ok = True\<rparr>"]
    by (auto simp: detect_nothing sym unbound analysis_result_def
        group_symbols_by_measure_def is_bar_line_def is_note_def midi_loop_def midi_step_def
        pitch_to_midi_number_examples Let_def)
qed

section \<open>Note-like classes through the pipeline\<close>



















end
